theory Spec2Isabelle
  imports Complex_Main
begin

section \<open>Numbers\<close>

text \<open>
  The program computes with JavaScript numbers. The model computes with exact reals,
  so rounding and overflow are not modelled. The doubles that are not finite
  (Infinity, -Infinity, NaN) only arise here from a division by zero; they are
  represented by the single value \<open>NotFinite\<close>. Every arithmetic operation with a
  non-finite operand (and a finite or non-finite other operand) gives a non-finite
  double again, and every comparison \<open>Math.abs(v) < eps\<close> with a non-finite \<open>v\<close> is
  false, which is all the program does with such values.
\<close>

datatype jsnum = Num real | NotFinite


fun jadd :: "jsnum \<Rightarrow> jsnum \<Rightarrow> jsnum" where
  "jadd (Num a) (Num b) = Num (a + b)"
| "jadd _ _ = NotFinite"

fun jsub :: "jsnum \<Rightarrow> jsnum \<Rightarrow> jsnum" where
  "jsub (Num a) (Num b) = Num (a - b)"
| "jsub _ _ = NotFinite"

fun jmul :: "jsnum \<Rightarrow> jsnum \<Rightarrow> jsnum" where
  "jmul (Num a) (Num b) = Num (a * b)"
| "jmul _ _ = NotFinite"

fun jneg :: "jsnum \<Rightarrow> jsnum" where
  "jneg (Num a) = Num (- a)"
| "jneg NotFinite = NotFinite"

text \<open>Division by a finite divisor: \<open>a / 0\<close> is Infinity, -Infinity or NaN.\<close>

fun jdiv :: "jsnum \<Rightarrow> real \<Rightarrow> jsnum" where
  "jdiv (Num a) b = (if b = 0 then NotFinite else Num (a / b))"
| "jdiv NotFinite b = NotFinite"

text \<open>\<open>if (Math.abs(v) < eps) v = 0\<close>; the comparison is false for a non-finite \<open>v\<close>.\<close>

definition snap :: "real \<Rightarrow> real \<Rightarrow> real" where
  "snap eps v = (if \<bar>v\<bar> < eps then 0 else v)"

fun jsnap :: "real \<Rightarrow> jsnum \<Rightarrow> jsnum" where
  "jsnap eps (Num v) = Num (snap eps v)"
| "jsnap eps NotFinite = NotFinite"

text \<open>\<open>Math.round\<close> rounds to the nearest integer, a tie towards plus infinity.\<close>

definition js_round :: "real \<Rightarrow> int" where
  "js_round v = \<lfloor>v + 1 / 2\<rfloor>"

text \<open>
  An optional number used as a condition (\<open>load.length\<close>, \<open>customI\<close>): \<open>undefined\<close>
  and \<open>0\<close> are falsy. \<open>a || b\<close> is \<open>a\<close> when \<open>a\<close> is truthy and \<open>b\<close> otherwise.
\<close>

fun truthy :: "real option \<Rightarrow> bool" where
  "truthy None = False"
| "truthy (Some v) = (v \<noteq> 0)"

fun js_or :: "real option \<Rightarrow> real \<Rightarrow> real" where
  "js_or None b = b"
| "js_or (Some a) b = (if a \<noteq> 0 then a else b)"

section \<open>Data model (types.ts)\<close>

datatype BeamType = Simple | CantileverLeft | CantileverRight

datatype LoadType = Point | Distributed | Moment

record Load =
  load_id :: string
  load_type :: LoadType
  load_value :: real
  load_position :: real
  load_length :: "real option"

record Material =
  mat_name :: string
  mat_E :: real
  mat_yield :: real

record Profile =
  prof_name :: string
  prof_I :: real
  prof_W :: real

record BeamState =
  beam_length :: real
  beam_type :: BeamType
  supportA :: real
  supportB :: real
  loads :: "Load list"
  material :: Material
  profile :: Profile
  customI :: "real option"
  customW :: "real option"

record CalculationResult =
  pos_x :: real
  shear :: real
  moment :: real
  slope :: jsnum
  deflection :: jsnum

record Reactions =
  Ra :: real
  Rb :: real
  Ma :: real

text \<open>The number a distributed load's \<open>length\<close> holds once it has passed the
  truthiness test (the value is only read on that branch).\<close>

definition len_of :: "Load \<Rightarrow> real" where
  "len_of load = (case load_length load of Some v \<Rightarrow> v | None \<Rightarrow> 0)"

section \<open>calculateReactions (src/utils/beamCalculator.ts)\<close>

text \<open>The first \<open>forEach\<close>: the pair is (totalLoadForce, totalLoadMomentAtZero).\<close>

fun totals_step :: "Load \<Rightarrow> real \<times> real \<Rightarrow> real \<times> real" where
  "totals_step load (totalLoadForce, totalLoadMomentAtZero) =
     (if load_type load = Point then
        (let F = load_value load
         in (totalLoadForce + F, totalLoadMomentAtZero - F * load_position load))
      else if load_type load = Distributed \<and> truthy (load_length load) then
        (let F = load_value load * len_of load;
             center = load_position load + len_of load / 2
         in (totalLoadForce + F, totalLoadMomentAtZero - F * center))
      else if load_type load = Moment then
        (totalLoadForce, totalLoadMomentAtZero + load_value load)
      else (totalLoadForce, totalLoadMomentAtZero))"

text \<open>The body of the loops that sum the moments of the loads about support A
  (branches \<open>simple\<close> and \<open>cantilever-left\<close>).\<close>

definition about_A_step :: "real \<Rightarrow> Load \<Rightarrow> real \<Rightarrow> real" where
  "about_A_step A load sumMomentsAboutA =
     (if load_type load = Point then
        (let d = load_position load - A
         in sumMomentsAboutA - load_value load * d)
      else if load_type load = Distributed \<and> truthy (load_length load) then
        (let F = load_value load * len_of load;
             center = load_position load + len_of load / 2;
             d = center - A
         in sumMomentsAboutA - F * d)
      else if load_type load = Moment then sumMomentsAboutA + load_value load
      else sumMomentsAboutA)"

text \<open>The body of the loop of the branch \<open>cantilever-right\<close>.\<close>

definition about_wall_step :: "real \<Rightarrow> Load \<Rightarrow> real \<Rightarrow> real" where
  "about_wall_step wallX load sumMomentsAboutWall =
     (if load_type load = Point then
        sumMomentsAboutWall + load_value load * (wallX - load_position load)
      else if load_type load = Distributed \<and> truthy (load_length load) then
        (let F = load_value load * len_of load;
             center = load_position load + len_of load / 2
         in sumMomentsAboutWall + F * (wallX - center))
      else if load_type load = Moment then sumMomentsAboutWall + load_value load
      else sumMomentsAboutWall)"

text \<open>The constant \<open>Rb\<close> that the branch \<open>simple\<close> computes from
  totalLoadMomentAtZero before it starts over is never read; the model leaves it out.\<close>

definition calculateReactions :: "BeamState \<Rightarrow> Reactions" where
  "calculateReactions state =
     (let (totalLoadForce, totalLoadMomentAtZero) = fold totals_step (loads state) (0, 0)
      in if beam_type state = Simple then
           (let dist = supportB state - supportA state
            in if \<bar>dist\<bar> < 1 / 10000 then \<lparr>Ra = 0, Rb = 0, Ma = 0\<rparr>
               else
                 (let sumMomentsAboutA = fold (about_A_step (supportA state)) (loads state) 0;
                      reactionB = - sumMomentsAboutA / dist;
                      reactionA = totalLoadForce - reactionB
                  in \<lparr>Ra = reactionA, Rb = reactionB, Ma = 0\<rparr>))
         else if beam_type state = CantileverLeft then
           (let Ra = totalLoadForce;
                sumMomentsAboutA = fold (about_A_step (supportA state)) (loads state) 0
            in \<lparr>Ra = Ra, Rb = 0, Ma = - sumMomentsAboutA\<rparr>)
         else
           (let Ra = totalLoadForce;
                wallX = beam_length state;
                sumMomentsAboutWall = fold (about_wall_step wallX) (loads state) 0
            in \<lparr>Ra = 0, Rb = Ra, Ma = - sumMomentsAboutWall\<rparr>))"

section \<open>calculateReactions (src/unnamed/part_001)\<close>

text \<open>The helper \<open>analyzeLoad(pivot)\<close>: the pair is (force, moment).\<close>

fun analyze_step :: "real \<Rightarrow> Load \<Rightarrow> real \<times> real \<Rightarrow> real \<times> real" where
  "analyze_step pivot load (force, mom) =
     (if load_type load = Point then
        (force + load_value load, mom + load_value load * (load_position load - pivot))
      else if load_type load = Distributed \<and> truthy (load_length load) then
        (let F = load_value load * len_of load;
             center = load_position load + len_of load / 2
         in (force + F, mom + F * (center - pivot)))
      else if load_type load = Moment then (force, mom - load_value load)
      else (force, mom))"

definition analyzeLoad :: "Load list \<Rightarrow> real \<Rightarrow> real \<times> real" where
  "analyzeLoad ls pivot = fold (analyze_step pivot) ls (0, 0)"

definition calculateReactions_part1 :: "BeamState \<Rightarrow> Reactions" where
  "calculateReactions_part1 state =
     (if beam_type state = Simple then
        (let loadAnalysis = analyzeLoad (loads state) (supportA state);
             dist = supportB state - supportA state
         in if \<bar>dist\<bar> < 1 / 10000 then \<lparr>Ra = 0, Rb = 0, Ma = 0\<rparr>
            else
              (let Rb = snd loadAnalysis / dist;
                   Ra = fst loadAnalysis - Rb
               in \<lparr>Ra = Ra, Rb = Rb, Ma = 0\<rparr>))
      else if beam_type state = CantileverLeft then
        (let loadAnalysis = analyzeLoad (loads state) (supportA state)
         in \<lparr>Ra = fst loadAnalysis, Rb = 0, Ma = snd loadAnalysis\<rparr>)
      else
        (let loadAnalysis = analyzeLoad (loads state) (beam_length state)
         in \<lparr>Ra = 0, Rb = fst loadAnalysis, Ma = snd loadAnalysis\<rparr>))"

section \<open>calculateDiagrams (src/utils/beamCalculator.ts)\<close>

definition POINTS :: nat where
  "POINTS = 200"

text \<open>The flexural stiffness: \<open>I_m4\<close>, \<open>E_kpa\<close> and \<open>EI\<close>.\<close>

definition flexural_EI :: "BeamState \<Rightarrow> real" where
  "flexural_EI state =
     (let I_m4 = js_or (customI state) (prof_I (profile state)) / 100000000;
          E_kpa = mat_E (material state) * 1000000
      in E_kpa * I_m4)"

subsection \<open>Pass 1: shear and moment at a cut\<close>

text \<open>
  The local functions \<open>momentFromForce\<close> and \<open>addMoment\<close> have an empty effect
  (\<open>addMoment\<close> has no statements), so the first block of the loop body changes
  \<open>shear\<close> only; the moment is summed by the second block into \<open>M_internal\<close>.
\<close>

definition reactions_shear :: "BeamState \<Rightarrow> Reactions \<Rightarrow> real \<Rightarrow> real \<Rightarrow> real" where
  "reactions_shear state reactions x shear0 =
     (if beam_type state = Simple then
        (let shear1 = (if x > supportA state then shear0 + Ra reactions else shear0)
         in if x > supportB state then shear1 + Rb reactions else shear1)
      else if beam_type state = CantileverLeft then
        (if x > supportA state then (shear0 + Ra reactions) + Ra reactions else shear0)
      else shear0)"

definition load_shear_step :: "real \<Rightarrow> Load \<Rightarrow> real \<Rightarrow> real" where
  "load_shear_step x load shear0 =
     (if load_type load = Point then
        (if x > load_position load then shear0 - load_value load else shear0)
      else if load_type load = Distributed \<and> truthy (load_length load) then
        (if x > load_position load then
           (let start = load_position load;
                end_x = min x (start + len_of load);
                distLen = end_x - start
            in if distLen > 0 then
                 (let forceChunk = load_value load * distLen in shear0 - forceChunk)
               else shear0)
         else shear0)
      else shear0)"

definition reactions_moment :: "BeamState \<Rightarrow> Reactions \<Rightarrow> real \<Rightarrow> real \<Rightarrow> real" where
  "reactions_moment state reactions x M0 =
     (if beam_type state = Simple then
        (let M1 = (if x \<ge> supportA state
                   then M0 + Ra reactions * (x - supportA state) else M0)
         in if x \<ge> supportB state then M1 + Rb reactions * (x - supportB state) else M1)
      else if beam_type state = CantileverLeft then
        (if x \<ge> supportA state
         then (M0 + Ra reactions * (x - supportA state)) + Ma reactions else M0)
      else M0)"

definition load_moment_step :: "real \<Rightarrow> Load \<Rightarrow> real \<Rightarrow> real" where
  "load_moment_step x load M0 =
     (if load_type load = Point then
        (if x > load_position load
         then M0 - load_value load * (x - load_position load) else M0)
      else if load_type load = Distributed \<and> truthy (load_length load) then
        (if x > load_position load then
           (let start = load_position load;
                end_x = min x (start + len_of load);
                distLen = end_x - start
            in if distLen > 0 then
                 (let forceChunk = load_value load * distLen;
                      centroid = start + distLen / 2
                  in M0 - forceChunk * (x - centroid))
               else M0)
         else M0)
      else if load_type load = Moment then
        (if x > load_position load then M0 + load_value load else M0)
      else M0)"

text \<open>One iteration of the first loop: the sample pushed for index \<open>i\<close>.\<close>

definition sample :: "BeamState \<Rightarrow> Reactions \<Rightarrow> real \<Rightarrow> nat \<Rightarrow> CalculationResult" where
  "sample state reactions dx i =
     (let x = real i * dx;
          shear_v = fold (load_shear_step x) (loads state)
                      (reactions_shear state reactions x 0);
          M_internal = fold (load_moment_step x) (loads state)
                         (reactions_moment state reactions x 0)
      in \<lparr>pos_x = x, shear = shear_v, moment = M_internal,
          slope = Num 0, deflection = Num 0\<rparr>)"

definition pass1 :: "BeamState \<Rightarrow> Reactions \<Rightarrow> real \<Rightarrow> CalculationResult list" where
  "pass1 state reactions dx = map (sample state reactions dx) [0..<Suc POINTS]"

subsection \<open>Pass 2: trapezoidal integration\<close>

text \<open>
  \<open>integrationData dx results i\<close> is the entry \<open>{theta, y}\<close> that iteration \<open>i\<close> of
  the second loop pushes; it is also the value of the running variables \<open>theta\<close> and
  \<open>y\<close> after that iteration, so \<open>tPrev = integrationData[i-1].theta\<close> is the running
  \<open>theta\<close> before the update.
\<close>

fun integrationData :: "real \<Rightarrow> CalculationResult list \<Rightarrow> nat \<Rightarrow> real \<times> real" where
  "integrationData dx results 0 = (0, 0)"
| "integrationData dx results (Suc n) =
     (let (theta, y) = integrationData dx results n;
          mPrev = moment (results ! n);
          mCurr = moment (results ! Suc n);
          avgM = (mPrev + mCurr) / 2;
          theta' = theta + avgM * dx;
          tPrev = theta;
          tCurr = theta';
          avgT = (tPrev + tCurr) / 2;
          y' = y + avgT * dx
      in (theta', y'))"

subsection \<open>Boundary conditions\<close>

text \<open>
  \<open>Math.min(Math.max(Math.round(pos / dx), 0), POINTS)\<close>, with the value of
  \<open>POINTS\<close> as the parameter \<open>N\<close>. With \<open>dx = 0\<close> the
  quotient is Infinity (index POINTS), -Infinity (index 0) or, for \<open>pos = 0\<close>, NaN; the
  index NaN selects no element, and reading a field of the \<open>undefined\<close> element throws
  a TypeError: the result \<open>None\<close>.
\<close>

definition getIdx :: "nat \<Rightarrow> real \<Rightarrow> real \<Rightarrow> nat option" where
  "getIdx N dx pos =
     (if dx = 0 then
        (if pos = 0 then None else if pos > 0 then Some N else Some 0)
      else Some (nat (min (max (js_round (pos / dx)) 0) (int N))))"

definition boundary_constants ::
  "BeamState \<Rightarrow> real \<Rightarrow> CalculationResult list \<Rightarrow> (real \<times> real) option" where
  "boundary_constants state dx results =
     (if beam_type state = CantileverLeft then
        (case getIdx POINTS dx (supportA state) of
           None \<Rightarrow> None
         | Some idx \<Rightarrow>
             (let val = integrationData dx results idx;
                  C1 = - fst val;
                  C2 = - snd val - C1 * supportA state
              in Some (C1, C2)))
      else if beam_type state = CantileverRight then
        (let val = integrationData dx results POINTS;
             C1 = - fst val;
             C2 = - snd val - C1 * beam_length state
         in Some (C1, C2))
      else if beam_type state = Simple then
        (case getIdx POINTS dx (supportA state) of
           None \<Rightarrow> None
         | Some idxA \<Rightarrow>
             (case getIdx POINTS dx (supportB state) of
                None \<Rightarrow> None
              | Some idxB \<Rightarrow>
                  (let yA = snd (integrationData dx results idxA);
                       yB = snd (integrationData dx results idxB)
                   in if \<bar>supportB state - supportA state\<bar> > 1 / 10000 then
                        (let C1 = (yA - yB) / (supportB state - supportA state);
                             C2 = - yA - C1 * supportA state
                         in Some (C1, C2))
                      else Some (0, 0))))
      else Some (0, 0))"

subsection \<open>Finalisation\<close>

definition finalize ::
  "real \<Rightarrow> real \<Rightarrow> real \<Rightarrow> real \<times> real \<Rightarrow> CalculationResult \<Rightarrow> CalculationResult" where
  "finalize EI C1 C2 item r =
     (let slope_v = jdiv (Num (fst item + C1)) EI;
          deflection_v = jmul (jdiv (Num (snd item + C1 * pos_x r + C2)) EI) (Num 1000)
      in \<lparr>pos_x = pos_x r,
          shear = snap (1 / 100000) (shear r),
          moment = snap (1 / 100000) (moment r),
          slope = slope_v,
          deflection = jsnap (1 / 100000) deflection_v\<rparr>)"

text \<open>The result is \<open>None\<close> when the call throws (see \<open>getIdx\<close>).\<close>

definition calculateDiagrams :: "BeamState \<Rightarrow> CalculationResult list option" where
  "calculateDiagrams state =
     (let reactions = calculateReactions state;
          EI = flexural_EI state;
          dx = beam_length state / real POINTS;
          results = pass1 state reactions dx
      in case boundary_constants state dx results of
           None \<Rightarrow> None
         | Some (C1, C2) \<Rightarrow>
             Some (map (\<lambda>i. finalize EI C1 C2 (integrationData dx results i) (results ! i))
                     [0..<Suc POINTS]))"

section \<open>calculateDiagrams (src/unnamed/part_001)\<close>

definition POINTS_part1 :: nat where
  "POINTS_part1 = 400"

subsection \<open>Pass 1\<close>

text \<open>The pair is (shear, moment).\<close>

fun reactions_step_part1 ::
  "BeamState \<Rightarrow> Reactions \<Rightarrow> real \<Rightarrow> real \<times> real \<Rightarrow> real \<times> real" where
  "reactions_step_part1 state reactions x (shear0, moment0) =
     (if beam_type state = Simple then
        (let (shear1, moment1) =
               (if x > supportA state
                then (shear0 + Ra reactions, moment0 + Ra reactions * (x - supportA state))
                else (shear0, moment0))
         in if x > supportB state
            then (shear1 + Rb reactions, moment1 + Rb reactions * (x - supportB state))
            else (shear1, moment1))
      else if beam_type state = CantileverLeft then
        (if x > supportA state
         then (shear0 + Ra reactions,
               (moment0 + Ra reactions * (x - supportA state)) - Ma reactions)
         else (shear0, moment0))
      else (shear0, moment0))"

fun load_step_part1 :: "real \<Rightarrow> Load \<Rightarrow> real \<times> real \<Rightarrow> real \<times> real" where
  "load_step_part1 x load (shear0, moment0) =
     (if load_type load = Point then
        (if x > load_position load
         then (shear0 - load_value load,
               moment0 - load_value load * (x - load_position load))
         else (shear0, moment0))
      else if load_type load = Distributed \<and> truthy (load_length load) then
        (if x > load_position load then
           (let start = load_position load;
                end_x = min x (start + len_of load);
                distLen = end_x - start
            in if distLen > 0 then
                 (let forceChunk = load_value load * distLen;
                      centroid = start + distLen / 2
                  in (shear0 - forceChunk, moment0 - forceChunk * (x - centroid)))
               else (shear0, moment0))
         else (shear0, moment0))
      else if load_type load = Moment then
        (if x > load_position load
         then (shear0, moment0 + load_value load) else (shear0, moment0))
      else (shear0, moment0))"

definition sample_part1 ::
  "BeamState \<Rightarrow> Reactions \<Rightarrow> real \<Rightarrow> nat \<Rightarrow> CalculationResult" where
  "sample_part1 state reactions dx i =
     (let x = real i * dx;
          (shear_v, moment_v) =
             fold (load_step_part1 x) (loads state)
               (reactions_step_part1 state reactions x (0, 0))
      in \<lparr>pos_x = x, shear = shear_v, moment = moment_v,
          slope = Num 0, deflection = Num 0\<rparr>)"

definition pass1_part1 :: "BeamState \<Rightarrow> Reactions \<Rightarrow> real \<Rightarrow> CalculationResult list" where
  "pass1_part1 state reactions dx =
     map (sample_part1 state reactions dx) [0..<Suc POINTS_part1]"

subsection \<open>Numerical integration\<close>

text \<open>
  \<open>integration_part1 EI dx results i\<close> is \<open>integration[i]\<close> after the loop: entry 0
  keeps the \<open>{theta: 0, y: 0}\<close> the array was filled with, and entry \<open>i \<ge> 1\<close> is the
  pair of the running \<open>cumTheta\<close> and \<open>cumY\<close> after iteration \<open>i\<close>. The division by
  \<open>EI\<close> happens here, so these values can be non-finite.
\<close>

fun integration_part1 ::
  "real \<Rightarrow> real \<Rightarrow> CalculationResult list \<Rightarrow> nat \<Rightarrow> jsnum \<times> jsnum" where
  "integration_part1 EI dx results 0 = (Num 0, Num 0)"
| "integration_part1 EI dx results (Suc n) =
     (let (cumTheta, cumY) = integration_part1 EI dx results n;
          mPrev = moment (results ! n);
          mCurr = moment (results ! Suc n);
          avgM = (mPrev + mCurr) / 2;
          cumTheta' = jadd cumTheta (jmul (jdiv (Num avgM) EI) (Num dx));
          cumY' = jadd cumY (jmul cumTheta' (Num dx))
      in (cumTheta', cumY'))"

subsection \<open>Boundary conditions\<close>

definition boundary_constants_part1 ::
  "BeamState \<Rightarrow> real \<Rightarrow> real \<Rightarrow> CalculationResult list \<Rightarrow> (jsnum \<times> jsnum) option" where
  "boundary_constants_part1 state EI dx results =
     (if beam_type state = CantileverLeft then
        (case getIdx POINTS_part1 dx (supportA state) of
           None \<Rightarrow> None
         | Some idx \<Rightarrow>
             (let C1 = jneg (fst (integration_part1 EI dx results idx));
                  C2 = jsub (jneg (snd (integration_part1 EI dx results idx)))
                         (jmul C1 (Num (supportA state)))
              in Some (C1, C2)))
      else if beam_type state = CantileverRight then
        (let idx = POINTS_part1;
             C1 = jneg (fst (integration_part1 EI dx results idx));
             C2 = jsub (jneg (snd (integration_part1 EI dx results idx)))
                    (jmul C1 (Num (beam_length state)))
         in Some (C1, C2))
      else if beam_type state = Simple then
        (case getIdx POINTS_part1 dx (supportA state) of
           None \<Rightarrow> None
         | Some idxA \<Rightarrow>
             (case getIdx POINTS_part1 dx (supportB state) of
                None \<Rightarrow> None
              | Some idxB \<Rightarrow>
                  (let y_int_A = snd (integration_part1 EI dx results idxA);
                       y_int_B = snd (integration_part1 EI dx results idxB)
                   in if \<bar>supportB state - supportA state\<bar> > 1 / 10000 then
                        (let C1 = jdiv (jneg (jsub y_int_B y_int_A))
                                    (supportB state - supportA state);
                             C2 = jsub (jneg y_int_A) (jmul C1 (Num (supportA state)))
                         in Some (C1, C2))
                      else Some (Num 0, Num 0))))
      else Some (Num 0, Num 0))"

subsection \<open>Finalisation\<close>

definition finalize_part1 ::
  "jsnum \<Rightarrow> jsnum \<Rightarrow> jsnum \<times> jsnum \<Rightarrow> CalculationResult \<Rightarrow> CalculationResult" where
  "finalize_part1 C1 C2 item r =
     (let slope_v = jadd (fst item) C1;
          deflection_v =
            jmul (jadd (jadd (snd item) (jmul C1 (Num (pos_x r)))) C2) (Num 1000)
      in \<lparr>pos_x = pos_x r,
          shear = snap (1 / 1000) (shear r),
          moment = snap (1 / 1000) (moment r),
          slope = slope_v,
          deflection = jsnap (1 / 1000) deflection_v\<rparr>)"

definition calculateDiagrams_part1 :: "BeamState \<Rightarrow> CalculationResult list option" where
  "calculateDiagrams_part1 state =
     (let reactions = calculateReactions_part1 state;
          EI = flexural_EI state;
          dx = beam_length state / real POINTS_part1;
          results = pass1_part1 state reactions dx
      in case boundary_constants_part1 state EI dx results of
           None \<Rightarrow> None
         | Some (C1, C2) \<Rightarrow>
             Some (map (\<lambda>i. finalize_part1 C1 C2 (integration_part1 EI dx results i)
                              (results ! i))
                     [0..<Suc POINTS_part1]))"

section \<open>The applied load, as the specification words it\<close>

text \<open>
  The downward force a load applies: a point load its magnitude, a distributed load
  its intensity times its span length (nothing when the span length is absent or
  zero), a concentrated moment nothing.
\<close>

definition applied_force :: "Load \<Rightarrow> real" where
  "applied_force load =
     (case load_type load of
        Point \<Rightarrow> load_value load
      | Distributed \<Rightarrow> load_value load * len_of load
      | Moment \<Rightarrow> 0)"

definition total_downward_force :: "Load list \<Rightarrow> real" where
  "total_downward_force ls = sum_list (map applied_force ls)"

section \<open>Constants (src/constants.ts) and example beams\<close>

definition MATERIALS :: "Material list" where
  "MATERIALS =
     [\<lparr>mat_name = ''Steel (Structure)'', mat_E = 200, mat_yield = 240\<rparr>,
      \<lparr>mat_name = ''Steel (High Strength)'', mat_E = 210, mat_yield = 345\<rparr>,
      \<lparr>mat_name = ''Aluminum 6061'', mat_E = 69, mat_yield = 276\<rparr>,
      \<lparr>mat_name = ''Timber (Pine)'', mat_E = 11, mat_yield = 40\<rparr>,
      \<lparr>mat_name = ''Concrete (C25/30)'', mat_E = 30, mat_yield = 25\<rparr>]"

definition PROFILES :: "Profile list" where
  "PROFILES =
     [\<lparr>prof_name = ''Custom'', prof_I = 0, prof_W = 0\<rparr>,
      \<lparr>prof_name = ''IPE 100'', prof_I = 171, prof_W = 342 / 10\<rparr>,
      \<lparr>prof_name = ''IPE 160'', prof_I = 869, prof_W = 109\<rparr>,
      \<lparr>prof_name = ''IPE 200'', prof_I = 1943, prof_W = 194\<rparr>,
      \<lparr>prof_name = ''IPE 240'', prof_I = 3892, prof_W = 324\<rparr>,
      \<lparr>prof_name = ''IPE 300'', prof_I = 8356, prof_W = 557\<rparr>,
      \<lparr>prof_name = ''HEA 100'', prof_I = 349, prof_W = 728 / 10\<rparr>,
      \<lparr>prof_name = ''HEA 200'', prof_I = 3692, prof_W = 389\<rparr>]"

definition steel :: Material where
  "steel = \<lparr>mat_name = ''Steel (Structure)'', mat_E = 200, mat_yield = 240\<rparr>"

definition custom_profile :: Profile where
  "custom_profile = \<lparr>prof_name = ''Custom'', prof_I = 0, prof_W = 0\<rparr>"

definition ipe_100 :: Profile where
  "ipe_100 = \<lparr>prof_name = ''IPE 100'', prof_I = 171, prof_W = 342 / 10\<rparr>"

text \<open>A cantilever fixed at the left end, length 10, a point load 10 at the free end.\<close>

definition cantilever_tip_load :: BeamState where
  "cantilever_tip_load =
     \<lparr>beam_length = 10, beam_type = CantileverLeft, supportA = 0, supportB = 10,
      loads = [\<lparr>load_id = ''p1'', load_type = Point, load_value = 10,
                load_position = 10, load_length = None\<rparr>],
      material = steel, profile = ipe_100, customI = None, customW = None\<rparr>"


text \<open>A simple span of length 10 on supports at 0 and 10, a point load 10 at 5.\<close>

definition simple_midspan_load :: BeamState where
  "simple_midspan_load =
     \<lparr>beam_length = 10, beam_type = Simple, supportA = 0, supportB = 10,
      loads = [\<lparr>load_id = ''p1'', load_type = Point, load_value = 10,
                load_position = 5, load_length = None\<rparr>],
      material = steel, profile = ipe_100, customI = None, customW = None\<rparr>"

text \<open>A simple span with both supports at 5 and a point load 1000 at 0.\<close>

definition coincident_supports :: BeamState where
  "coincident_supports =
     \<lparr>beam_length = 10, beam_type = Simple, supportA = 5, supportB = 5,
      loads = [\<lparr>load_id = ''p1'', load_type = Point, load_value = 1000,
                load_position = 0, load_length = None\<rparr>],
      material = steel, profile = ipe_100, customI = None, customW = None\<rparr>"

text \<open>Beams without loads: with the profile IPE 100, and with the profile Custom.\<close>

definition unloaded_beam :: BeamState where
  "unloaded_beam =
     \<lparr>beam_length = 10, beam_type = Simple, supportA = 0, supportB = 10,
      loads = [],
      material = steel, profile = ipe_100, customI = None, customW = None\<rparr>"

definition unloaded_custom_beam :: BeamState where
  "unloaded_custom_beam =
     \<lparr>beam_length = 10, beam_type = Simple, supportA = 0, supportB = 10,
      loads = [],
      material = steel, profile = custom_profile, customI = None, customW = None\<rparr>"

text \<open>The load of the simple span above, on its own.\<close>

definition midspan_point_load :: Load where
  "midspan_point_load =
     \<lparr>load_id = ''p1'', load_type = Point, load_value = 10,
      load_position = 5, load_length = None\<rparr>"

text \<open>A cantilever fixed at the right end (x = 10) with a point load 10 at the free end,
  with the profile IPE 100 and with the profile Custom.\<close>

definition cantilever_right_tip_load :: BeamState where
  "cantilever_right_tip_load =
     \<lparr>beam_length = 10, beam_type = CantileverRight, supportA = 0, supportB = 10,
      loads = [\<lparr>load_id = ''p1'', load_type = Point, load_value = 10,
                load_position = 0, load_length = None\<rparr>],
      material = steel, profile = ipe_100, customI = None, customW = None\<rparr>"

definition cantilever_right_custom :: BeamState where
  "cantilever_right_custom =
     \<lparr>beam_length = 10, beam_type = CantileverRight, supportA = 0, supportB = 10,
      loads = [\<lparr>load_id = ''p1'', load_type = Point, load_value = 10,
                load_position = 0, load_length = None\<rparr>],
      material = steel, profile = custom_profile, customI = None, customW = None\<rparr>"


section \<open>Objects in a store\<close>

text \<open>
  To speak about mutation, the objects of the program are placed in a store: a list of
  objects in which an object's address is its index, so that an allocation appends and
  never moves an object. A \<open>BeamState\<close> object holds its numbers and the addresses of
  its loads array, material and profile; an array holds the addresses of its elements.
\<close>

record BeamStateObj =
  o_length :: real
  o_type :: BeamType
  o_supportA :: real
  o_supportB :: real
  o_loads :: nat
  o_material :: nat
  o_profile :: nat
  o_customI :: "real option"
  o_customW :: "real option"

datatype obj =
    LoadObj Load
  | MaterialObj Material
  | ProfileObj Profile
  | StateObj BeamStateObj
  | ArrayObj "nat list"
  | ReactionsObj Reactions
  | AnalysisObj "real \<times> real"
  | ResultObj CalculationResult
  | IntegrationObj "real \<times> real"
  | IntegrationObj_part1 "jsnum \<times> jsnum"

type_synonym store = "obj list"

definition lookup :: "store \<Rightarrow> nat \<Rightarrow> obj option" where
  "lookup h a = (if a < length h then Some (h ! a) else None)"

definition read_load :: "store \<Rightarrow> nat \<Rightarrow> Load option" where
  "read_load h p = (case lookup h p of Some (LoadObj l) \<Rightarrow> Some l | _ \<Rightarrow> None)"

definition read_loads :: "store \<Rightarrow> nat \<Rightarrow> Load list option" where
  "read_loads h a =
     (case lookup h a of
        Some (ArrayObj refs) \<Rightarrow> those (map (read_load h) refs)
      | _ \<Rightarrow> None)"

definition read_material :: "store \<Rightarrow> nat \<Rightarrow> Material option" where
  "read_material h p = (case lookup h p of Some (MaterialObj m) \<Rightarrow> Some m | _ \<Rightarrow> None)"

definition read_profile :: "store \<Rightarrow> nat \<Rightarrow> Profile option" where
  "read_profile h p = (case lookup h p of Some (ProfileObj m) \<Rightarrow> Some m | _ \<Rightarrow> None)"

text \<open>The \<open>BeamState\<close> value that the object at address \<open>a\<close> and the objects it refers
  to hold; \<open>None\<close> when the address does not hold a well-formed state.\<close>

definition read_state :: "store \<Rightarrow> nat \<Rightarrow> BeamState option" where
  "read_state h a =
     (case lookup h a of
        Some (StateObj so) \<Rightarrow>
          (case read_loads h (o_loads so) of
             None \<Rightarrow> None
           | Some ls \<Rightarrow>
               (case read_material h (o_material so) of
                  None \<Rightarrow> None
                | Some m \<Rightarrow>
                    (case read_profile h (o_profile so) of
                       None \<Rightarrow> None
                     | Some p \<Rightarrow>
                         Some \<lparr>beam_length = o_length so, beam_type = o_type so,
                               supportA = o_supportA so, supportB = o_supportB so,
                               loads = ls, material = m, profile = p,
                               customI = o_customI so, customW = o_customW so\<rparr>)))
      | _ \<Rightarrow> None)"

text \<open>An object literal or array literal: a new object at the next free address.\<close>

definition alloc :: "obj \<Rightarrow> store \<Rightarrow> nat \<times> store" where
  "alloc ob h = (length h, h @ [ob])"

text \<open>\<open>arr.push({...})\<close>: a new object, and its address appended to the array at
  \<open>ra\<close>.\<close>

definition push :: "nat \<Rightarrow> obj \<Rightarrow> store \<Rightarrow> store" where
  "push ra ob h =
     (let (p, h1) = alloc ob h
      in case lookup h1 ra of
           Some (ArrayObj refs) \<Rightarrow> h1[ra := ArrayObj (refs @ [p])]
         | _ \<Rightarrow> h1)"

text \<open>\<open>arr[i] = {...}\<close>: a new object, and its address stored in slot \<open>i\<close> of the
  array at \<open>ra\<close>.\<close>

definition assign_slot :: "nat \<Rightarrow> nat \<Rightarrow> obj \<Rightarrow> store \<Rightarrow> store" where
  "assign_slot ra i ob h =
     (let (p, h1) = alloc ob h
      in case lookup h1 ra of
           Some (ArrayObj refs) \<Rightarrow> h1[ra := ArrayObj (refs[i := p])]
         | _ \<Rightarrow> h1)"

section \<open>The two functions on the store (src/utils/beamCalculator.ts)\<close>

text \<open>
  The functions read the state and allocate and write objects. The values they compute
  are those of the functions above, applied to the state as it is read at the call; the
  definitions below add where the objects are created and which objects are written.
  The result is the store after the call and the address returned (\<open>None\<close> when the
  call throws, or when the address given holds no state).
\<close>

definition calculateReactions_store :: "store \<Rightarrow> nat \<Rightarrow> store \<times> nat option" where
  "calculateReactions_store h a =
     (case read_state h a of
        None \<Rightarrow> (h, None)
      | Some state \<Rightarrow>
          (let (r, h1) = alloc (ReactionsObj (calculateReactions state)) h
           in (h1, Some r)))"

text \<open>One iteration of the last loop: the assignments to the fields of \<open>results[i]\<close>
  write the object that slot \<open>i\<close> of the results array refers to; \<open>fin\<close> computes its
  new fields from the entry \<open>i\<close> of the integration array and its old fields.\<close>

definition rewrite_result ::
  "(obj \<Rightarrow> CalculationResult \<Rightarrow> CalculationResult option) \<Rightarrow>
   nat \<Rightarrow> nat \<Rightarrow> nat \<Rightarrow> store \<Rightarrow> store" where
  "rewrite_result fin ra ia i h =
     (case lookup h ra of
        Some (ArrayObj ps) \<Rightarrow>
          (case lookup h ia of
             Some (ArrayObj qs) \<Rightarrow>
               (if i < length ps \<and> i < length qs then
                  (case lookup h (ps ! i) of
                     Some (ResultObj r) \<Rightarrow>
                       (case lookup h (qs ! i) of
                          Some item \<Rightarrow>
                            (case fin item r of
                               Some r' \<Rightarrow> h[ps ! i := ResultObj r']
                             | None \<Rightarrow> h)
                        | None \<Rightarrow> h)
                   | _ \<Rightarrow> h)
                else h)
           | _ \<Rightarrow> h)
      | _ \<Rightarrow> h)"

fun finalize_obj :: "real \<Rightarrow> real \<Rightarrow> real \<Rightarrow> obj \<Rightarrow> CalculationResult \<Rightarrow> CalculationResult option"
  where
  "finalize_obj EI C1 C2 (IntegrationObj item) r = Some (finalize EI C1 C2 item r)"
| "finalize_obj EI C1 C2 _ r = None"

fun finalize_part1_obj :: "jsnum \<Rightarrow> jsnum \<Rightarrow> obj \<Rightarrow> CalculationResult \<Rightarrow> CalculationResult option"
  where
  "finalize_part1_obj C1 C2 (IntegrationObj_part1 item) r = Some (finalize_part1 C1 C2 item r)"
| "finalize_part1_obj C1 C2 _ r = None"

definition calculateDiagrams_store :: "store \<Rightarrow> nat \<Rightarrow> store \<times> nat option" where
  "calculateDiagrams_store h a =
     (case read_state h a of
        None \<Rightarrow> (h, None)
      | Some state \<Rightarrow>
          (let (h1, rr) = calculateReactions_store h a;
               reactions = calculateReactions state;
               EI = flexural_EI state;
               dx = beam_length state / real POINTS;
               (ra, h2) = alloc (ArrayObj []) h1;
               h3 = fold (\<lambda>i. push ra (ResultObj (sample state reactions dx i)))
                      [0..<Suc POINTS] h2;
               (ia, h4) = alloc (ArrayObj []) h3;
               h5 = fold (\<lambda>i. push ia (IntegrationObj
                             (integrationData dx (pass1 state reactions dx) i)))
                      [0..<Suc POINTS] h4
           in case boundary_constants state dx (pass1 state reactions dx) of
                None \<Rightarrow> (h5, None)
              | Some (C1, C2) \<Rightarrow>
                  (fold (rewrite_result (finalize_obj EI C1 C2) ra ia) [0..<Suc POINTS] h5,
                   Some ra)))"

section \<open>The two functions on the store (src/unnamed/part_001)\<close>

text \<open>\<open>analyzeLoad\<close> returns a new object \<open>{force, moment}\<close>; its pivot is
  \<open>length\<close> for the right cantilever and \<open>supportA\<close> otherwise.\<close>

definition analysis_pivot :: "BeamState \<Rightarrow> real" where
  "analysis_pivot state =
     (if beam_type state = CantileverRight then beam_length state else supportA state)"

definition calculateReactions_part1_store :: "store \<Rightarrow> nat \<Rightarrow> store \<times> nat option" where
  "calculateReactions_part1_store h a =
     (case read_state h a of
        None \<Rightarrow> (h, None)
      | Some state \<Rightarrow>
          (let pivot = analysis_pivot state;
               (la, h1) = alloc (AnalysisObj (analyzeLoad (loads state) pivot)) h;
               (r, h2) = alloc (ReactionsObj (calculateReactions_part1 state)) h1
           in (h2, Some r)))"

text \<open>\<open>new Array(results.length).fill({theta: 0, y: 0})\<close> creates the array and one
  object, and stores the address of that one object in every slot.\<close>

definition calculateDiagrams_part1_store :: "store \<Rightarrow> nat \<Rightarrow> store \<times> nat option" where
  "calculateDiagrams_part1_store h a =
     (case read_state h a of
        None \<Rightarrow> (h, None)
      | Some state \<Rightarrow>
          (let (h1, rr) = calculateReactions_part1_store h a;
               reactions = calculateReactions_part1 state;
               EI = flexural_EI state;
               dx = beam_length state / real POINTS_part1;
               (ra, h2) = alloc (ArrayObj []) h1;
               h3 = fold (\<lambda>i. push ra (ResultObj (sample_part1 state reactions dx i)))
                      [0..<Suc POINTS_part1] h2;
               (ia, h4) = alloc (ArrayObj []) h3;
               (z, h5) = alloc (IntegrationObj_part1 (Num 0, Num 0)) h4;
               h6 = h5[ia := ArrayObj (replicate (Suc POINTS_part1) z)];
               h7 = fold (\<lambda>i. assign_slot ia i (IntegrationObj_part1
                             (integration_part1 EI dx (pass1_part1 state reactions dx) i)))
                      [1..<Suc POINTS_part1] h6
           in case boundary_constants_part1 state EI dx (pass1_part1 state reactions dx) of
                None \<Rightarrow> (h7, None)
              | Some (C1, C2) \<Rightarrow>
                  (fold (rewrite_result (finalize_part1_obj C1 C2) ra ia)
                     [0..<Suc POINTS_part1] h7,
                   Some ra)))"

section \<open>Reading a result back\<close>

definition read_result :: "store \<Rightarrow> nat \<Rightarrow> CalculationResult option" where
  "read_result h p = (case lookup h p of Some (ResultObj r) \<Rightarrow> Some r | _ \<Rightarrow> None)"

definition read_results :: "store \<Rightarrow> nat \<Rightarrow> CalculationResult list option" where
  "read_results h a =
     (case lookup h a of
        Some (ArrayObj refs) \<Rightarrow> those (map (read_result h) refs)
      | _ \<Rightarrow> None)"

text \<open>
  The store a call of \<open>calculateDiagrams\<close> leaves, after the objects \<open>pre\<close>: the
  results array, the result objects, the integration array and its objects, each array
  holding the addresses of the objects that follow it.
\<close>

definition addrs :: "nat \<Rightarrow> nat \<Rightarrow> nat list" where
  "addrs base n = map (\<lambda>i. base + i) [0..<n]"

definition layout :: "store \<Rightarrow> CalculationResult list \<Rightarrow> obj list \<Rightarrow> store" where
  "layout pre rs items =
     pre @ ArrayObj (addrs (Suc (length pre)) (length rs))
         # (map ResultObj rs
            @ ArrayObj (addrs (Suc (Suc (length pre + length rs))) (length items))
              # items)"

section \<open>What a call leaves of the store it was given\<close>

text \<open>Every object of the store \<open>h\<close> is in \<open>h'\<close>, at its address and with its
  contents.\<close>

definition unchanged :: "store \<Rightarrow> store \<Rightarrow> bool" where
  "unchanged h h' = (take (length h) h' = h)"

text \<open>The address \<open>p\<close> holds no object of the store \<open>h\<close>.\<close>

definition fresh :: "store \<Rightarrow> nat \<Rightarrow> bool" where
  "fresh h p = (length h \<le> p)"

text \<open>A store that holds the simple span with a load at midspan, at address 4.\<close>

definition example_store :: store where
  "example_store =
     [MaterialObj steel,
      ProfileObj ipe_100,
      LoadObj midspan_point_load,
      ArrayObj [2],
      StateObj \<lparr>o_length = 10, o_type = Simple, o_supportA = 0, o_supportB = 10,
                o_loads = 3, o_material = 0, o_profile = 1,
                o_customI = None, o_customW = None\<rparr>]"

section \<open>Properties\<close>

subsection \<open>The example material and profiles are entries of the tables\<close>

lemma catalogue_entries:
  "MATERIALS ! 0 = steel \<and> PROFILES ! 0 = custom_profile \<and> PROFILES ! 1 = ipe_100"
  by (simp add: MATERIALS_def PROFILES_def steel_def custom_profile_def ipe_100_def)

subsection \<open>Force balance of the reactions\<close>

lemma len_of_falsy: "\<not> truthy (load_length load) \<Longrightarrow> len_of load = 0"
  by (cases "load_length load") (simp_all add: len_of_def)

lemma totals_step_fst:
  "fst (totals_step load acc) = fst acc + applied_force load"
  by (cases acc; cases "load_type load")
     (simp_all add: applied_force_def Let_def len_of_falsy)

lemma fold_totals_fst:
  "fst (fold totals_step ls acc) = fst acc + total_downward_force ls"
proof (induction ls arbitrary: acc)
  case Nil
  show ?case by (simp add: total_downward_force_def)
next
  case (Cons load ls)
  have "fst (fold totals_step (load # ls) acc) =
        fst (totals_step load acc) + total_downward_force ls"
    using Cons.IH [of "totals_step load acc"] by simp
  then show ?case
    by (simp add: totals_step_fst total_downward_force_def)
qed

lemma analyze_step_fst:
  "fst (analyze_step pivot load acc) = fst acc + applied_force load"
  by (cases acc; cases "load_type load")
     (simp_all add: applied_force_def Let_def len_of_falsy)

lemma analyzeLoad_fst: "fst (fold (analyze_step pivot) ls acc) = fst acc + total_downward_force ls"
proof (induction ls arbitrary: acc)
  case Nil
  show ?case by (simp add: total_downward_force_def)
next
  case (Cons load ls)
  have "fst (fold (analyze_step pivot) (load # ls) acc) =
        fst (analyze_step pivot load acc) + total_downward_force ls"
    using Cons.IH [of "analyze_step pivot load acc"] by simp
  then show ?case
    by (simp add: analyze_step_fst total_downward_force_def)
qed

lemma reactions_sum:
  "beam_type s \<noteq> Simple \<or> 1 / 10000 \<le> \<bar>supportB s - supportA s\<bar> \<Longrightarrow>
   Ra (calculateReactions s) + Rb (calculateReactions s) = total_downward_force (loads s)"
  using fold_totals_fst [of "loads s" "(0, 0)"]
  by (auto simp: calculateReactions_def Let_def split: prod.splits)

lemma reactions_sum_part1:
  "beam_type s \<noteq> Simple \<or> 1 / 10000 \<le> \<bar>supportB s - supportA s\<bar> \<Longrightarrow>
   Ra (calculateReactions_part1 s) + Rb (calculateReactions_part1 s) = total_downward_force (loads s)"
  using analyzeLoad_fst [of "supportA s" "loads s" "(0, 0)"] analyzeLoad_fst [of "beam_length s" "loads s" "(0, 0)"]
  by (auto simp: calculateReactions_part1_def analyzeLoad_def Let_def split: prod.splits)

lemma reactions_degenerate:
  "beam_type s = Simple \<Longrightarrow> \<bar>supportB s - supportA s\<bar> < 1 / 10000 \<Longrightarrow>
   calculateReactions s = \<lparr>Ra = 0, Rb = 0, Ma = 0\<rparr> \<and> calculateReactions_part1 s = \<lparr>Ra = 0, Rb = 0, Ma = 0\<rparr>"
  by (simp add: calculateReactions_def calculateReactions_part1_def Let_def split: prod.splits)


subsection \<open>The shape of the result (src/utils/beamCalculator.ts)\<close>

lemma pass1_nth: "i \<le> POINTS \<Longrightarrow> pass1 s r dx ! i = sample s r dx i"
  unfolding pass1_def by (simp del: upt_Suc)

lemma pass1_part1_nth: "i \<le> POINTS_part1 \<Longrightarrow> pass1_part1 s r dx ! i = sample_part1 s r dx i"
  unfolding pass1_part1_def by (simp del: upt_Suc)

lemma js_round_of_nat: "js_round (real k) = int k"
  unfolding js_round_def by linarith

lemma getIdx_defined: "dx \<noteq> 0 \<Longrightarrow> \<exists>k. getIdx N dx pos = Some k \<and> k \<le> N"
  by (simp add: getIdx_def)

lemma getIdx_on_grid: "dx \<noteq> 0 \<Longrightarrow> k \<le> N \<Longrightarrow> getIdx N dx (real k * dx) = Some k"
  by (simp add: getIdx_def js_round_of_nat)

lemma boundary_constants_defined:
  "dx \<noteq> 0 \<Longrightarrow> \<exists>C1 C2. boundary_constants s dx results = Some (C1, C2)"
  using getIdx_defined [of dx POINTS "supportA s"] getIdx_defined [of dx POINTS "supportB s"]
  by (cases "beam_type s") (auto simp: boundary_constants_def Let_def)

lemma calculateDiagrams_Some:
  "boundary_constants s (beam_length s / real POINTS)
     (pass1 s (calculateReactions s) (beam_length s / real POINTS)) = Some (C1, C2) \<Longrightarrow>
   calculateDiagrams s =
     Some (map (\<lambda>i. finalize (flexural_EI s) C1 C2
                  (integrationData (beam_length s / real POINTS)
                     (pass1 s (calculateReactions s) (beam_length s / real POINTS)) i)
                  (sample s (calculateReactions s) (beam_length s / real POINTS) i))
             [0..<Suc POINTS])"
  unfolding calculateDiagrams_def Let_def
  by (simp del: upt_Suc add: pass1_nth)

lemma calculateDiagrams_None:
  "boundary_constants s (beam_length s / real POINTS)
     (pass1 s (calculateReactions s) (beam_length s / real POINTS)) = None \<Longrightarrow>
   calculateDiagrams s = None"
  unfolding calculateDiagrams_def Let_def by simp


lemma finalize_not_finite:
  "slope (finalize 0 C1 C2 item r) = NotFinite \<and>
   deflection (finalize 0 C1 C2 item r) = NotFinite"
  by (simp add: finalize_def Let_def)


lemma diagrams_not_finite:
  assumes "flexural_EI s = 0" and "calculateDiagrams s = Some rs"
  shows "\<forall>r \<in> set rs. slope r = NotFinite \<and> deflection r = NotFinite"
proof (cases "boundary_constants s (beam_length s / real POINTS)
       (pass1 s (calculateReactions s) (beam_length s / real POINTS))")
  case None
  then show ?thesis using assms(2) calculateDiagrams_None by simp
next
  case (Some c)
  obtain C1 C2 where "c = (C1, C2)" by (cases c)
  with Some calculateDiagrams_Some [of s C1 C2] assms show ?thesis
    by (auto simp del: upt_Suc simp: finalize_not_finite)
qed

subsection \<open>The shape of the result (src/unnamed/part_001)\<close>

lemma boundary_constants_part1_defined:
  "dx \<noteq> 0 \<Longrightarrow> \<exists>C1 C2. boundary_constants_part1 s EI dx results = Some (C1, C2)"
  using getIdx_defined [of dx POINTS_part1 "supportA s"]
        getIdx_defined [of dx POINTS_part1 "supportB s"]
  by (cases "beam_type s") (auto simp: boundary_constants_part1_def Let_def)

lemma calculateDiagrams_part1_Some:
  "boundary_constants_part1 s (flexural_EI s) (beam_length s / real POINTS_part1)
     (pass1_part1 s (calculateReactions_part1 s) (beam_length s / real POINTS_part1))
     = Some (C1, C2) \<Longrightarrow>
   calculateDiagrams_part1 s =
     Some (map (\<lambda>i. finalize_part1 C1 C2
                  (integration_part1 (flexural_EI s) (beam_length s / real POINTS_part1)
                     (pass1_part1 s (calculateReactions_part1 s)
                        (beam_length s / real POINTS_part1)) i)
                  (sample_part1 s (calculateReactions_part1 s)
                     (beam_length s / real POINTS_part1) i))
             [0..<Suc POINTS_part1])"
  unfolding calculateDiagrams_part1_def Let_def
  by (simp del: upt_Suc add: pass1_part1_nth)

lemma calculateDiagrams_part1_None:
  "boundary_constants_part1 s (flexural_EI s) (beam_length s / real POINTS_part1)
     (pass1_part1 s (calculateReactions_part1 s) (beam_length s / real POINTS_part1))
     = None \<Longrightarrow>
   calculateDiagrams_part1 s = None"
  unfolding calculateDiagrams_part1_def Let_def by simp

lemma integration_part1_finite:
  "EI \<noteq> 0 \<Longrightarrow> \<exists>t y. integration_part1 EI dx results n = (Num t, Num y)"
  by (induction n) (auto simp: Let_def)

lemma integration_part1_not_finite:
  "integration_part1 0 dx results (Suc n) = (NotFinite, NotFinite)"
  by (cases "integration_part1 0 dx results n") (simp add: Let_def)



lemma finalize_part1_not_finite:
  "slope (finalize_part1 C1 C2 (NotFinite, NotFinite) r) = NotFinite \<and>
   deflection (finalize_part1 C1 C2 (NotFinite, NotFinite) r) = NotFinite"
  by (simp add: finalize_part1_def Let_def)


lemma diagrams_part1_not_finite:
  assumes "flexural_EI s = 0" and "calculateDiagrams_part1 s = Some rs"
    and "0 < i" and "i \<le> POINTS_part1"
  shows "slope (rs ! i) = NotFinite \<and> deflection (rs ! i) = NotFinite"
proof (cases "boundary_constants_part1 s (flexural_EI s) (beam_length s / real POINTS_part1)
     (pass1_part1 s (calculateReactions_part1 s) (beam_length s / real POINTS_part1))")
  case None
  then show ?thesis using assms(2) calculateDiagrams_part1_None by simp
next
  case (Some c)
  obtain C1 C2 where "c = (C1, C2)" by (cases c)
  moreover obtain n where "i = Suc n" using assms(3) by (cases i) auto
  ultimately show ?thesis
    using Some calculateDiagrams_part1_Some [of s C1 C2] assms
    by (auto simp del: upt_Suc integration_part1.simps
             simp: integration_part1_not_finite finalize_part1_not_finite)
qed

lemma diagrams_defined:
  assumes "beam_length s \<noteq> 0"
  shows "\<exists>rs. calculateDiagrams s = Some rs \<and> length rs = Suc POINTS"
proof -
  have "beam_length s / real POINTS \<noteq> 0"
    using assms by (simp add: POINTS_def)
  then obtain C1 C2 where
    "boundary_constants s (beam_length s / real POINTS)
       (pass1 s (calculateReactions s) (beam_length s / real POINTS)) = Some (C1, C2)"
    using boundary_constants_defined by blast
  from calculateDiagrams_Some [OF this] show ?thesis
    by (simp del: upt_Suc)
qed

lemma diagrams_part1_defined:
  assumes "beam_length s \<noteq> 0"
  shows "\<exists>rs. calculateDiagrams_part1 s = Some rs \<and> length rs = Suc POINTS_part1"
proof -
  have "beam_length s / real POINTS_part1 \<noteq> 0"
    using assms by (simp add: POINTS_part1_def)
  then obtain C1 C2 where
    "boundary_constants_part1 s (flexural_EI s) (beam_length s / real POINTS_part1)
       (pass1_part1 s (calculateReactions_part1 s) (beam_length s / real POINTS_part1))
       = Some (C1, C2)"
    using boundary_constants_part1_defined by blast
  from calculateDiagrams_part1_Some [OF this] show ?thesis
    by (simp del: upt_Suc)
qed

subsection \<open>The samples of the result\<close>

lemma diagrams_nth:
  assumes "calculateDiagrams s = Some rs" and "i \<le> POINTS"
  shows "\<exists>C1 C2.
           boundary_constants s (beam_length s / real POINTS)
             (pass1 s (calculateReactions s) (beam_length s / real POINTS)) = Some (C1, C2) \<and>
           rs ! i = finalize (flexural_EI s) C1 C2
             (integrationData (beam_length s / real POINTS)
                (pass1 s (calculateReactions s) (beam_length s / real POINTS)) i)
             (sample s (calculateReactions s) (beam_length s / real POINTS) i)"
proof (cases "boundary_constants s (beam_length s / real POINTS)
       (pass1 s (calculateReactions s) (beam_length s / real POINTS))")
  case None
  then show ?thesis using assms(1) calculateDiagrams_None by simp
next
  case (Some c)
  obtain C1 C2 where c: "c = (C1, C2)" by (cases c)
  have "i < length [0..<Suc POINTS]" using assms(2) by simp
  then show ?thesis
    using Some c calculateDiagrams_Some [of s C1 C2] assms
    by (auto simp del: upt_Suc)
qed

lemma diagrams_part1_nth:
  assumes "calculateDiagrams_part1 s = Some rs" and "i \<le> POINTS_part1"
  shows "\<exists>C1 C2.
           boundary_constants_part1 s (flexural_EI s) (beam_length s / real POINTS_part1)
             (pass1_part1 s (calculateReactions_part1 s) (beam_length s / real POINTS_part1))
             = Some (C1, C2) \<and>
           rs ! i = finalize_part1 C1 C2
             (integration_part1 (flexural_EI s) (beam_length s / real POINTS_part1)
                (pass1_part1 s (calculateReactions_part1 s)
                   (beam_length s / real POINTS_part1)) i)
             (sample_part1 s (calculateReactions_part1 s)
                (beam_length s / real POINTS_part1) i)"
proof (cases "boundary_constants_part1 s (flexural_EI s) (beam_length s / real POINTS_part1)
       (pass1_part1 s (calculateReactions_part1 s) (beam_length s / real POINTS_part1))")
  case None
  then show ?thesis using assms(1) calculateDiagrams_part1_None by simp
next
  case (Some c)
  obtain C1 C2 where c: "c = (C1, C2)" by (cases c)
  have "i < length [0..<Suc POINTS_part1]" using assms(2) by simp
  then show ?thesis
    using Some c calculateDiagrams_part1_Some [of s C1 C2] assms
    by (auto simp del: upt_Suc)
qed

lemma finalize_pass1_fields:
  "pos_x (finalize EI C1 C2 item r) = pos_x r \<and>
   shear (finalize EI C1 C2 item r) = snap (1 / 100000) (shear r) \<and>
   moment (finalize EI C1 C2 item r) = snap (1 / 100000) (moment r)"
  by (simp add: finalize_def Let_def)

lemma finalize_part1_pass1_fields:
  "pos_x (finalize_part1 C1 C2 item r) = pos_x r \<and>
   shear (finalize_part1 C1 C2 item r) = snap (1 / 1000) (shear r) \<and>
   moment (finalize_part1 C1 C2 item r) = snap (1 / 1000) (moment r)"
  by (simp add: finalize_part1_def Let_def)

lemma sample_pos_x: "pos_x (sample s r dx i) = real i * dx"
  by (simp add: sample_def Let_def)

lemma sample_part1_pos_x: "pos_x (sample_part1 s r dx i) = real i * dx"
  by (simp add: sample_part1_def Let_def split: prod.splits)

lemma diagrams_pass1_fields:
  assumes "calculateDiagrams s = Some rs" and "i \<le> POINTS"
  shows "pos_x (rs ! i) = real i * (beam_length s / real POINTS) \<and>
         shear (rs ! i) = snap (1 / 100000)
           (shear (sample s (calculateReactions s) (beam_length s / real POINTS) i)) \<and>
         moment (rs ! i) = snap (1 / 100000)
           (moment (sample s (calculateReactions s) (beam_length s / real POINTS) i))"
  using diagrams_nth [OF assms]
  by (auto simp: finalize_pass1_fields sample_pos_x)

lemma diagrams_part1_pass1_fields:
  assumes "calculateDiagrams_part1 s = Some rs" and "i \<le> POINTS_part1"
  shows "pos_x (rs ! i) = real i * (beam_length s / real POINTS_part1) \<and>
         shear (rs ! i) = snap (1 / 1000)
           (shear (sample_part1 s (calculateReactions_part1 s)
              (beam_length s / real POINTS_part1) i)) \<and>
         moment (rs ! i) = snap (1 / 1000)
           (moment (sample_part1 s (calculateReactions_part1 s)
              (beam_length s / real POINTS_part1) i))"
  using diagrams_part1_nth [OF assms]
  by (auto simp: finalize_part1_pass1_fields sample_part1_pos_x)

subsection \<open>The custom second moment of area\<close>

lemma reactions_customI: "calculateReactions (s\<lparr>customI := v\<rparr>) = calculateReactions s"
  by (simp add: calculateReactions_def Let_def split: prod.splits)

lemma reactions_part1_customI:
  "calculateReactions_part1 (s\<lparr>customI := v\<rparr>) = calculateReactions_part1 s"
  by (simp add: calculateReactions_part1_def Let_def)

lemma pass1_customI: "pass1 (s\<lparr>customI := v\<rparr>) r dx = pass1 s r dx"
  by (simp add: pass1_def sample_def reactions_shear_def reactions_moment_def Let_def
        del: upt_Suc)

lemma pass1_part1_customI: "pass1_part1 (s\<lparr>customI := v\<rparr>) r dx = pass1_part1 s r dx"
  by (simp add: pass1_part1_def sample_part1_def Let_def del: upt_Suc)

lemma boundary_constants_customI:
  "boundary_constants (s\<lparr>customI := v\<rparr>) dx results = boundary_constants s dx results"
  by (simp add: boundary_constants_def Let_def split: option.splits)

lemma boundary_constants_part1_customI:
  "boundary_constants_part1 (s\<lparr>customI := v\<rparr>) EI dx results =
   boundary_constants_part1 s EI dx results"
  by (simp add: boundary_constants_part1_def Let_def split: option.splits)

lemma diagrams_customI:
  "flexural_EI (s\<lparr>customI := v\<rparr>) = flexural_EI (s\<lparr>customI := w\<rparr>) \<Longrightarrow>
   calculateDiagrams (s\<lparr>customI := v\<rparr>) = calculateDiagrams (s\<lparr>customI := w\<rparr>)"
  by (simp add: calculateDiagrams_def reactions_customI pass1_customI
        boundary_constants_customI Let_def del: upt_Suc)

lemma diagrams_part1_customI:
  "flexural_EI (s\<lparr>customI := v\<rparr>) = flexural_EI (s\<lparr>customI := w\<rparr>) \<Longrightarrow>
   calculateDiagrams_part1 (s\<lparr>customI := v\<rparr>) = calculateDiagrams_part1 (s\<lparr>customI := w\<rparr>)"
  by (simp add: calculateDiagrams_part1_def reactions_part1_customI pass1_part1_customI
        boundary_constants_part1_customI Let_def del: upt_Suc)

subsection \<open>Finite results\<close>

lemma EI_tip: "flexural_EI cantilever_tip_load = 342"
  by (simp add: flexural_EI_def cantilever_tip_load_def steel_def ipe_100_def)






subsection \<open>The cantilever with a load at its free end\<close>

lemma tip_reactions:
  "calculateReactions cantilever_tip_load = \<lparr>Ra = 10, Rb = 0, Ma = 100\<rparr>"
  by (simp add: calculateReactions_def cantilever_tip_load_def about_A_step_def Let_def)

lemma tip_reactions_part1:
  "calculateReactions_part1 cantilever_tip_load = \<lparr>Ra = 10, Rb = 0, Ma = 100\<rparr>"
  by (simp add: calculateReactions_part1_def cantilever_tip_load_def analyzeLoad_def Let_def)

lemma tip_sample:
  "sample cantilever_tip_load \<lparr>Ra = 10, Rb = 0, Ma = 100\<rparr> (10 / real POINTS) i =
     \<lparr>pos_x = real i / 20,
      shear = (if 0 < i then 20 else 0) - (if 200 < i then 10 else 0),
      moment = real i / 2 + 100 - (if 200 < i then 10 * (real i / 20 - 10) else 0),
      slope = Num 0, deflection = Num 0\<rparr>"
  by (simp add: sample_def Let_def cantilever_tip_load_def reactions_shear_def
      reactions_moment_def load_shear_step_def load_moment_step_def POINTS_def)

lemma tip_sample_part1:
  "sample_part1 cantilever_tip_load \<lparr>Ra = 10, Rb = 0, Ma = 100\<rparr> (10 / real POINTS_part1) i =
     \<lparr>pos_x = real i / 40,
      shear = (if 0 < i then 10 else 0) - (if 400 < i then 10 else 0),
      moment = (if 0 < i then real i / 4 - 100 else 0)
                 - (if 400 < i then 10 * (real i / 40 - 10) else 0),
      slope = Num 0, deflection = Num 0\<rparr>"
  by (simp add: sample_part1_def Let_def cantilever_tip_load_def POINTS_part1_def)

lemma tip_defined:
  "\<exists>rs. calculateDiagrams cantilever_tip_load = Some rs \<and> length rs = Suc POINTS"
  by (rule diagrams_defined) (simp add: cantilever_tip_load_def)

lemma tip_part1_defined:
  "\<exists>rs. calculateDiagrams_part1 cantilever_tip_load = Some rs \<and> length rs = Suc POINTS_part1"
  by (rule diagrams_part1_defined) (simp add: cantilever_tip_load_def)

lemma tip_length: "beam_length cantilever_tip_load = 10"
  by (simp add: cantilever_tip_load_def)

lemma tip_fields:
  assumes "i \<le> POINTS"
  shows "pos_x (the (calculateDiagrams cantilever_tip_load) ! i) = real i / 20 \<and>
         shear (the (calculateDiagrams cantilever_tip_load) ! i) = (if 0 < i then 20 else 0) \<and>
         moment (the (calculateDiagrams cantilever_tip_load) ! i) = real i / 2 + 100"
proof -
  obtain rs where rs: "calculateDiagrams cantilever_tip_load = Some rs"
    using tip_defined by blast
  have "\<not> 200 < i" using assms by (simp add: POINTS_def)
  then show ?thesis
    using diagrams_pass1_fields [OF rs assms] rs
    by (simp add: tip_reactions tip_length tip_sample snap_def) (simp add: POINTS_def)
qed

lemma tip_part1_fields:
  assumes "i \<le> POINTS_part1"
  shows "pos_x (the (calculateDiagrams_part1 cantilever_tip_load) ! i) = real i / 40 \<and>
         shear (the (calculateDiagrams_part1 cantilever_tip_load) ! i) =
           (if 0 < i then 10 else 0) \<and>
         moment (the (calculateDiagrams_part1 cantilever_tip_load) ! i) =
           (if 0 < i then snap (1 / 1000) (real i / 4 - 100) else 0)"
proof -
  obtain rs where rs: "calculateDiagrams_part1 cantilever_tip_load = Some rs"
    using tip_part1_defined by blast
  have "\<not> 400 < i" using assms by (simp add: POINTS_part1_def)
  then show ?thesis
    using diagrams_part1_pass1_fields [OF rs assms] rs
    by (simp add: tip_reactions_part1 tip_length tip_sample_part1 snap_def)
       (simp add: POINTS_part1_def)
qed

text \<open>
  Claim C2, as the code has it. For the cantilever fixed at \<open>supportA = 0\<close>, of length
  10, with a point load 10 at position 10, both versions of \<open>calculateReactions\<close>
  return \<open>Ra = 10\<close> and \<open>Ma = 100\<close>. In src/utils/beamCalculator.ts the sampled moment
  is 100 at position 0 and 100.5 at the first sample after 0 (position 0.05). In
  src/unnamed/part_001 the sampled moment is -99.75 at the first sample after 0
  (position 0.025) and 0 at position 10.
\<close>

theorem cantilever_tip_load_scenario:
  "Ra (calculateReactions cantilever_tip_load) = 10 \<and>
   Ma (calculateReactions cantilever_tip_load) = 100 \<and>
   Ra (calculateReactions_part1 cantilever_tip_load) = 10 \<and>
   Ma (calculateReactions_part1 cantilever_tip_load) = 100 \<and>
   calculateDiagrams cantilever_tip_load \<noteq> None \<and>
   pos_x (the (calculateDiagrams cantilever_tip_load) ! 0) = 0 \<and>
   moment (the (calculateDiagrams cantilever_tip_load) ! 0) = 100 \<and>
   pos_x (the (calculateDiagrams cantilever_tip_load) ! 1) = 1 / 20 \<and>
   moment (the (calculateDiagrams cantilever_tip_load) ! 1) = 201 / 2 \<and>
   calculateDiagrams_part1 cantilever_tip_load \<noteq> None \<and>
   pos_x (the (calculateDiagrams_part1 cantilever_tip_load) ! 1) = 1 / 40 \<and>
   moment (the (calculateDiagrams_part1 cantilever_tip_load) ! 1) = - 399 / 4 \<and>
   pos_x (the (calculateDiagrams_part1 cantilever_tip_load) ! 400) = 10 \<and>
   moment (the (calculateDiagrams_part1 cantilever_tip_load) ! 400) = 0"
  using tip_fields [of 0] tip_fields [of 1] tip_part1_fields [of 1] tip_part1_fields [of 400]
    tip_defined tip_part1_defined
  by (auto simp: tip_reactions tip_reactions_part1 POINTS_def POINTS_part1_def snap_def)

text \<open>
  The claim C2 as stated fails: the moment at the first sample after 0 is not 100 in
  either version, and in src/utils/beamCalculator.ts the moment at position 10 is not 0.
\<close>

theorem cantilever_tip_load_moment_mismatch:
  "pos_x (the (calculateDiagrams cantilever_tip_load) ! 1) = 1 / 20 \<and>
   moment (the (calculateDiagrams cantilever_tip_load) ! 1) \<noteq> 100 \<and>
   pos_x (the (calculateDiagrams cantilever_tip_load) ! 200) = 10 \<and>
   moment (the (calculateDiagrams cantilever_tip_load) ! 200) \<noteq> 0 \<and>
   pos_x (the (calculateDiagrams_part1 cantilever_tip_load) ! 1) = 1 / 40 \<and>
   moment (the (calculateDiagrams_part1 cantilever_tip_load) ! 1) \<noteq> 100"
  using tip_fields [of 1] tip_fields [of 200] tip_part1_fields [of 1]
  by (auto simp: POINTS_def POINTS_part1_def snap_def)

text \<open>In src/utils/beamCalculator.ts the moment at the free end is 200.\<close>

lemma tip_free_end_moment:
  "moment (the (calculateDiagrams cantilever_tip_load) ! 200) = 200"
  using tip_fields [of 200] by (simp add: POINTS_def)

subsection \<open>Equilibrium of the vertical forces\<close>

text \<open>
  Claim C3, as the code has it. For the two cantilever kinds, and for a simple span whose
  supports are at least 1e-4 apart, the vertical reactions \<open>Ra + Rb\<close> returned by
  \<open>calculateReactions\<close> (both versions) sum to the applied downward force: every point
  load's magnitude plus every distributed load's intensity times its span length;
  concentrated moments contribute nothing. For a simple span whose supports are closer
  than 1e-4 the guard returns zero reactions, whatever the loads.
\<close>

theorem reactions_balance_applied_force:
  "(beam_type s \<noteq> Simple \<or> 1 / 10000 \<le> \<bar>supportB s - supportA s\<bar> \<longrightarrow>
      Ra (calculateReactions s) + Rb (calculateReactions s) =
        total_downward_force (loads s) \<and>
      Ra (calculateReactions_part1 s) + Rb (calculateReactions_part1 s) =
        total_downward_force (loads s)) \<and>
   (beam_type s = Simple \<and> \<bar>supportB s - supportA s\<bar> < 1 / 10000 \<longrightarrow>
      Ra (calculateReactions s) + Rb (calculateReactions s) = 0 \<and>
      Ra (calculateReactions_part1 s) + Rb (calculateReactions_part1 s) = 0)"
  using reactions_sum [of s] reactions_sum_part1 [of s] reactions_degenerate [of s]
  by auto

theorem reactions_balance_applied_force_witness:
  "1 / 10000 \<le> \<bar>supportB simple_midspan_load - supportA simple_midspan_load\<bar> \<and>
   Ra (calculateReactions simple_midspan_load) + Rb (calculateReactions simple_midspan_load)
     = 10 \<and>
   Ra (calculateReactions_part1 simple_midspan_load) +
     Rb (calculateReactions_part1 simple_midspan_load) = 10 \<and>
   total_downward_force (loads simple_midspan_load) = 10 \<and>
   beam_type coincident_supports = Simple \<and>
   \<bar>supportB coincident_supports - supportA coincident_supports\<bar> < 1 / 10000 \<and>
   Ra (calculateReactions coincident_supports) + Rb (calculateReactions coincident_supports)
     = 0 \<and>
   Ra (calculateReactions_part1 coincident_supports) +
     Rb (calculateReactions_part1 coincident_supports) = 0"
proof -
  have a: "1 / 10000 \<le> \<bar>supportB simple_midspan_load - supportA simple_midspan_load\<bar>"
    by (simp add: simple_midspan_load_def)
  have t: "total_downward_force (loads simple_midspan_load) = 10"
    by (simp add: simple_midspan_load_def total_downward_force_def applied_force_def)
  have b: "beam_type coincident_supports = Simple \<and>
           \<bar>supportB coincident_supports - supportA coincident_supports\<bar> < 1 / 10000"
    by (simp add: coincident_supports_def)
  show ?thesis
    using reactions_balance_applied_force [of simple_midspan_load]
      reactions_balance_applied_force [of coincident_supports] a t b
    by simp
qed

text \<open>
  The claim C3 as stated fails for the simple span with both supports at 5 and a point
  load of 1000: the reactions sum to 0.
\<close>

theorem coincident_supports_unbalanced:
  "Ra (calculateReactions coincident_supports) + Rb (calculateReactions coincident_supports)
     = 0 \<and>
   Ra (calculateReactions_part1 coincident_supports) +
     Rb (calculateReactions_part1 coincident_supports) = 0 \<and>
   total_downward_force (loads coincident_supports) = 1000"
  by (simp add: calculateReactions_def calculateReactions_part1_def coincident_supports_def
      total_downward_force_def applied_force_def Let_def analyzeLoad_def)

subsection \<open>The reaction in the shear of the left cantilever\<close>

lemma left_cantilever_shear_twice:
  "beam_type s = CantileverLeft \<Longrightarrow> supportA s < x \<Longrightarrow>
   reactions_shear s r x 0 = 2 * Ra r"
  by (simp add: reactions_shear_def)

lemma left_cantilever_shear_once_part1:
  "beam_type s = CantileverLeft \<Longrightarrow> supportA s < x \<Longrightarrow>
   fst (reactions_step_part1 s r x (0, 0)) = Ra r"
  by simp

lemma simple_span_shear_once:
  "beam_type s = Simple \<Longrightarrow>
   reactions_shear s r x 0 =
     (if supportA s < x then Ra r else 0) + (if supportB s < x then Rb r else 0)"
  by (simp add: reactions_shear_def)

text \<open>
  Claim C5 at the cantilever with a tip load. In src/utils/beamCalculator.ts the branch
  \<open>cantilever-left\<close> runs \<open>shear += reactions.Ra\<close> twice, so the shear at the first
  sample after the support is 20, twice the reaction 10; src/unnamed/part_001 adds the
  reaction once and gives 10.
\<close>

theorem cantilever_left_shear_counts_reaction_twice:
  "Ra (calculateReactions cantilever_tip_load) = 10 \<and>
   calculateDiagrams cantilever_tip_load \<noteq> None \<and>
   shear (the (calculateDiagrams cantilever_tip_load) ! 1) = 20 \<and>
   Ra (calculateReactions_part1 cantilever_tip_load) = 10 \<and>
   calculateDiagrams_part1 cantilever_tip_load \<noteq> None \<and>
   shear (the (calculateDiagrams_part1 cantilever_tip_load) ! 1) = 10"
  using tip_fields [of 1] tip_part1_fields [of 1] tip_defined tip_part1_defined
  by (auto simp: tip_reactions tip_reactions_part1 POINTS_def POINTS_part1_def)

subsection \<open>Loads at the position of the cut\<close>











subsection \<open>Beams without loads\<close>

lemma getIdx_le: "getIdx N dx pos = Some k \<Longrightarrow> k \<le> N"
  by (auto simp: getIdx_def split: if_splits)

lemma reactions_unloaded:
  "loads s = [] \<Longrightarrow> calculateReactions s = \<lparr>Ra = 0, Rb = 0, Ma = 0\<rparr> \<and>
     calculateReactions_part1 s = \<lparr>Ra = 0, Rb = 0, Ma = 0\<rparr>"
  by (simp add: calculateReactions_def calculateReactions_part1_def analyzeLoad_def Let_def)

lemma sample_unloaded:
  "loads s = [] \<Longrightarrow> sample s \<lparr>Ra = 0, Rb = 0, Ma = 0\<rparr> dx i =
     \<lparr>pos_x = real i * dx, shear = 0, moment = 0, slope = Num 0, deflection = Num 0\<rparr>"
  by (simp add: sample_def reactions_shear_def reactions_moment_def Let_def)

lemma sample_part1_unloaded:
  "loads s = [] \<Longrightarrow> sample_part1 s \<lparr>Ra = 0, Rb = 0, Ma = 0\<rparr> dx i =
     \<lparr>pos_x = real i * dx, shear = 0, moment = 0, slope = Num 0, deflection = Num 0\<rparr>"
  by (simp add: sample_part1_def Let_def)

lemma integrationData_zero:
  "(\<And>j. j \<le> n \<Longrightarrow> moment (results ! j) = 0) \<Longrightarrow> integrationData dx results n = (0, 0)"
  by (induction n) (simp_all add: Let_def)

lemma integration_part1_zero:
  "EI \<noteq> 0 \<Longrightarrow> (\<And>j. j \<le> n \<Longrightarrow> moment (results ! j) = 0) \<Longrightarrow>
   integration_part1 EI dx results n = (Num 0, Num 0)"
  by (induction n) (simp_all add: Let_def)

lemma pass1_unloaded_moment:
  "loads s = [] \<Longrightarrow> j \<le> POINTS \<Longrightarrow> moment (pass1 s \<lparr>Ra = 0, Rb = 0, Ma = 0\<rparr> dx ! j) = 0"
  by (simp add: pass1_nth sample_unloaded)

lemma pass1_part1_unloaded_moment:
  "loads s = [] \<Longrightarrow> j \<le> POINTS_part1 \<Longrightarrow>
   moment (pass1_part1 s \<lparr>Ra = 0, Rb = 0, Ma = 0\<rparr> dx ! j) = 0"
  by (simp add: pass1_part1_nth sample_part1_unloaded)

lemma integrationData_unloaded:
  assumes "loads s = []" and "n \<le> POINTS"
  shows "integrationData dx (pass1 s \<lparr>Ra = 0, Rb = 0, Ma = 0\<rparr> dx) n = (0, 0)"
  using assms by (intro integrationData_zero pass1_unloaded_moment) simp_all

lemma integration_part1_unloaded:
  assumes "loads s = []" and "n \<le> POINTS_part1" and "EI \<noteq> 0"
  shows "integration_part1 EI dx (pass1_part1 s \<lparr>Ra = 0, Rb = 0, Ma = 0\<rparr> dx) n
           = (Num 0, Num 0)"
  using assms by (intro integration_part1_zero pass1_part1_unloaded_moment) simp_all

lemma boundary_constants_unloaded:
  assumes "loads s = []"
    and "boundary_constants s dx (pass1 s \<lparr>Ra = 0, Rb = 0, Ma = 0\<rparr> dx) = Some (C1, C2)"
  shows "C1 = 0 \<and> C2 = 0"
proof (cases "beam_type s")
  case Simple
  then obtain idxA idxB where
    idx: "getIdx POINTS dx (supportA s) = Some idxA" "getIdx POINTS dx (supportB s) = Some idxB"
    using assms(2) by (auto simp: boundary_constants_def split: option.splits)
  then have "idxA \<le> POINTS" "idxB \<le> POINTS" by (auto dest: getIdx_le)
  then show ?thesis
    using Simple idx assms(2) integrationData_unloaded [OF assms(1)]
    by (auto simp: boundary_constants_def Let_def split: if_splits)
next
  case CantileverLeft
  then obtain idx where idx: "getIdx POINTS dx (supportA s) = Some idx"
    using assms(2) by (auto simp: boundary_constants_def split: option.splits)
  then have "idx \<le> POINTS" by (auto dest: getIdx_le)
  then show ?thesis
    using CantileverLeft idx assms(2) integrationData_unloaded [OF assms(1)]
    by (auto simp: boundary_constants_def Let_def)
next
  case CantileverRight
  then show ?thesis
    using assms(2) integrationData_unloaded [OF assms(1), of POINTS]
    by (auto simp: boundary_constants_def Let_def)
qed

lemma boundary_constants_part1_unloaded:
  assumes "loads s = []" and "EI \<noteq> 0"
    and "boundary_constants_part1 s EI dx (pass1_part1 s \<lparr>Ra = 0, Rb = 0, Ma = 0\<rparr> dx)
           = Some (C1, C2)"
  shows "C1 = Num 0 \<and> C2 = Num 0"
proof (cases "beam_type s")
  case Simple
  then obtain idxA idxB where
    idx: "getIdx POINTS_part1 dx (supportA s) = Some idxA"
         "getIdx POINTS_part1 dx (supportB s) = Some idxB"
    using assms(3) by (auto simp: boundary_constants_part1_def split: option.splits)
  then have "idxA \<le> POINTS_part1" "idxB \<le> POINTS_part1" by (auto dest: getIdx_le)
  then show ?thesis
    using Simple idx assms(3) integration_part1_unloaded [OF assms(1) _ assms(2)]
    by (auto simp: boundary_constants_part1_def Let_def split: if_splits)
next
  case CantileverLeft
  then obtain idx where idx: "getIdx POINTS_part1 dx (supportA s) = Some idx"
    using assms(3) by (auto simp: boundary_constants_part1_def split: option.splits)
  then have "idx \<le> POINTS_part1" by (auto dest: getIdx_le)
  then show ?thesis
    using CantileverLeft idx assms(3) integration_part1_unloaded [OF assms(1) _ assms(2)]
    by (auto simp: boundary_constants_part1_def Let_def)
next
  case CantileverRight
  then show ?thesis
    using assms(3) integration_part1_unloaded [OF assms(1) _ assms(2), of POINTS_part1]
    by (auto simp: boundary_constants_part1_def Let_def)
qed

lemma finalize_zero:
  "EI \<noteq> 0 \<Longrightarrow>
   finalize EI 0 0 (0, 0)
     \<lparr>pos_x = x, shear = 0, moment = 0, slope = Num 0, deflection = Num 0\<rparr> =
     \<lparr>pos_x = x, shear = 0, moment = 0, slope = Num 0, deflection = Num 0\<rparr>"
  by (simp add: finalize_def snap_def)

lemma finalize_part1_zero:
  "finalize_part1 (Num 0) (Num 0) (Num 0, Num 0)
     \<lparr>pos_x = x, shear = 0, moment = 0, slope = Num 0, deflection = Num 0\<rparr> =
     \<lparr>pos_x = x, shear = 0, moment = 0, slope = Num 0, deflection = Num 0\<rparr>"
  by (simp add: finalize_part1_def snap_def)

lemma diagrams_unloaded:
  assumes "loads s = []" and "flexural_EI s \<noteq> 0" and "calculateDiagrams s = Some rs"
    and "i \<le> POINTS"
  shows "rs ! i = \<lparr>pos_x = real i * (beam_length s / real POINTS), shear = 0, moment = 0,
                   slope = Num 0, deflection = Num 0\<rparr>"
proof -
  have r: "calculateReactions s = \<lparr>Ra = 0, Rb = 0, Ma = 0\<rparr>"
    using reactions_unloaded [OF assms(1)] by simp
  obtain C1 C2 where
    bc: "boundary_constants s (beam_length s / real POINTS)
           (pass1 s \<lparr>Ra = 0, Rb = 0, Ma = 0\<rparr> (beam_length s / real POINTS)) = Some (C1, C2)"
    and nth: "rs ! i = finalize (flexural_EI s) C1 C2
           (integrationData (beam_length s / real POINTS)
              (pass1 s \<lparr>Ra = 0, Rb = 0, Ma = 0\<rparr> (beam_length s / real POINTS)) i)
           (sample s \<lparr>Ra = 0, Rb = 0, Ma = 0\<rparr> (beam_length s / real POINTS) i)"
    using diagrams_nth [OF assms(3) assms(4)] r by auto
  have "C1 = 0 \<and> C2 = 0"
    using boundary_constants_unloaded [OF assms(1) bc] .
  then show ?thesis
    using nth integrationData_unloaded [OF assms(1) assms(4)] sample_unloaded [OF assms(1)]
      finalize_zero [OF assms(2)]
    by simp
qed

lemma diagrams_part1_unloaded:
  assumes "loads s = []" and "flexural_EI s \<noteq> 0" and "calculateDiagrams_part1 s = Some rs"
    and "i \<le> POINTS_part1"
  shows "rs ! i = \<lparr>pos_x = real i * (beam_length s / real POINTS_part1), shear = 0,
                   moment = 0, slope = Num 0, deflection = Num 0\<rparr>"
proof -
  have r: "calculateReactions_part1 s = \<lparr>Ra = 0, Rb = 0, Ma = 0\<rparr>"
    using reactions_unloaded [OF assms(1)] by simp
  obtain C1 C2 where
    bc: "boundary_constants_part1 s (flexural_EI s) (beam_length s / real POINTS_part1)
           (pass1_part1 s \<lparr>Ra = 0, Rb = 0, Ma = 0\<rparr> (beam_length s / real POINTS_part1))
           = Some (C1, C2)"
    and nth: "rs ! i = finalize_part1 C1 C2
           (integration_part1 (flexural_EI s) (beam_length s / real POINTS_part1)
              (pass1_part1 s \<lparr>Ra = 0, Rb = 0, Ma = 0\<rparr> (beam_length s / real POINTS_part1)) i)
           (sample_part1 s \<lparr>Ra = 0, Rb = 0, Ma = 0\<rparr> (beam_length s / real POINTS_part1) i)"
    using diagrams_part1_nth [OF assms(3) assms(4)] r by auto
  have "C1 = Num 0 \<and> C2 = Num 0"
    using boundary_constants_part1_unloaded [OF assms(1) assms(2) bc] .
  then show ?thesis
    using nth integration_part1_unloaded [OF assms(1) assms(4) assms(2)]
      sample_part1_unloaded [OF assms(1)] finalize_part1_zero
    by simp
qed

lemma all_nth_set: "length rs = Suc N \<Longrightarrow> (\<And>i. i \<le> N \<Longrightarrow> P (rs ! i)) \<Longrightarrow> \<forall>r \<in> set rs. P r"
  by (auto simp: in_set_conv_nth)

lemma EI_unloaded: "flexural_EI unloaded_beam = 342"
  by (simp add: flexural_EI_def unloaded_beam_def steel_def ipe_100_def)

lemma EI_unloaded_custom: "flexural_EI unloaded_custom_beam = 0"
  by (simp add: flexural_EI_def unloaded_custom_beam_def custom_profile_def)

text \<open>
  Claim C7, as the code has it. For every BeamState whose load list is empty both
  versions of \<open>calculateReactions\<close> return all-zero reactions; when moreover the length
  and the flexural stiffness \<open>EI\<close> are not 0, both versions of \<open>calculateDiagrams\<close>
  return a full sequence in which every sample has shear, moment, slope and deflection
  equal to 0.
\<close>

theorem unloaded_beam_all_zero:
  assumes "loads s = []"
  shows "calculateReactions s = \<lparr>Ra = 0, Rb = 0, Ma = 0\<rparr> \<and>
         calculateReactions_part1 s = \<lparr>Ra = 0, Rb = 0, Ma = 0\<rparr> \<and>
         (beam_length s \<noteq> 0 \<and> flexural_EI s \<noteq> 0 \<longrightarrow>
            (\<exists>rs. calculateDiagrams s = Some rs \<and> length rs = Suc POINTS \<and>
               (\<forall>r \<in> set rs. shear r = 0 \<and> moment r = 0 \<and>
                                slope r = Num 0 \<and> deflection r = Num 0)) \<and>
            (\<exists>rs. calculateDiagrams_part1 s = Some rs \<and> length rs = Suc POINTS_part1 \<and>
               (\<forall>r \<in> set rs. shear r = 0 \<and> moment r = 0 \<and>
                                slope r = Num 0 \<and> deflection r = Num 0)))"
proof -
  have "\<exists>rs. calculateDiagrams s = Some rs \<and> length rs = Suc POINTS \<and>
               (\<forall>r \<in> set rs. shear r = 0 \<and> moment r = 0 \<and>
                                slope r = Num 0 \<and> deflection r = Num 0)"
    if h: "beam_length s \<noteq> 0" "flexural_EI s \<noteq> 0"
  proof -
    obtain rs where rs: "calculateDiagrams s = Some rs" "length rs = Suc POINTS"
      using diagrams_defined [OF h(1)] by blast
    have "\<forall>r \<in> set rs. shear r = 0 \<and> moment r = 0 \<and> slope r = Num 0 \<and> deflection r = Num 0"
      using rs(2) by (rule all_nth_set) (simp add: diagrams_unloaded [OF assms h(2) rs(1)])
    with rs show ?thesis by blast
  qed
  moreover have "\<exists>rs. calculateDiagrams_part1 s = Some rs \<and> length rs = Suc POINTS_part1 \<and>
               (\<forall>r \<in> set rs. shear r = 0 \<and> moment r = 0 \<and>
                                slope r = Num 0 \<and> deflection r = Num 0)"
    if h: "beam_length s \<noteq> 0" "flexural_EI s \<noteq> 0"
  proof -
    obtain rs where rs: "calculateDiagrams_part1 s = Some rs" "length rs = Suc POINTS_part1"
      using diagrams_part1_defined [OF h(1)] by blast
    have "\<forall>r \<in> set rs. shear r = 0 \<and> moment r = 0 \<and> slope r = Num 0 \<and> deflection r = Num 0"
      using rs(2) by (rule all_nth_set) (simp add: diagrams_part1_unloaded [OF assms h(2) rs(1)])
    with rs show ?thesis by blast
  qed
  ultimately show ?thesis
    using reactions_unloaded [OF assms] by blast
qed

theorem unloaded_beam_all_zero_witness:
  "loads unloaded_beam = [] \<and> beam_length unloaded_beam \<noteq> 0 \<and>
   flexural_EI unloaded_beam \<noteq> 0 \<and>
   calculateReactions unloaded_beam = \<lparr>Ra = 0, Rb = 0, Ma = 0\<rparr> \<and>
   calculateDiagrams unloaded_beam \<noteq> None \<and>
   slope (the (calculateDiagrams unloaded_beam) ! 7) = Num 0 \<and>
   deflection (the (calculateDiagrams unloaded_beam) ! 7) = Num 0 \<and>
   calculateDiagrams_part1 unloaded_beam \<noteq> None \<and>
   slope (the (calculateDiagrams_part1 unloaded_beam) ! 7) = Num 0 \<and>
   deflection (the (calculateDiagrams_part1 unloaded_beam) ! 7) = Num 0"
proof -
  have h: "loads unloaded_beam = []" "beam_length unloaded_beam \<noteq> 0"
    by (simp_all add: unloaded_beam_def)
  have e: "flexural_EI unloaded_beam \<noteq> 0"
    by (simp add: EI_unloaded)
  from unloaded_beam_all_zero [OF h(1)] h(2) e
  obtain rs rs' where
    rs: "calculateDiagrams unloaded_beam = Some rs" "length rs = Suc POINTS"
      "\<forall>r \<in> set rs. shear r = 0 \<and> moment r = 0 \<and> slope r = Num 0 \<and> deflection r = Num 0"
    and rs': "calculateDiagrams_part1 unloaded_beam = Some rs'"
      "length rs' = Suc POINTS_part1"
      "\<forall>r \<in> set rs'. shear r = 0 \<and> moment r = 0 \<and> slope r = Num 0 \<and> deflection r = Num 0"
    by blast
  have "rs ! 7 \<in> set rs" "rs' ! 7 \<in> set rs'"
    using rs(2) rs'(2) by (simp_all add: POINTS_def POINTS_part1_def)
  then show ?thesis
    using unloaded_beam_all_zero [OF h(1)] h e rs rs' by simp
qed

text \<open>
  The claim C7 as stated fails for the unloaded simple span with the profile Custom
  (\<open>EI = 0\<close>): slope and deflection are \<open>0 / 0\<close>, not 0.
\<close>

theorem unloaded_custom_beam_slope_not_zero:
  "loads unloaded_custom_beam = [] \<and>
   calculateDiagrams unloaded_custom_beam \<noteq> None \<and>
   slope (the (calculateDiagrams unloaded_custom_beam) ! 0) = NotFinite \<and>
   deflection (the (calculateDiagrams unloaded_custom_beam) ! 0) = NotFinite \<and>
   calculateDiagrams_part1 unloaded_custom_beam \<noteq> None \<and>
   slope (the (calculateDiagrams_part1 unloaded_custom_beam) ! 1) = NotFinite \<and>
   deflection (the (calculateDiagrams_part1 unloaded_custom_beam) ! 1) = NotFinite"
proof -
  have len: "beam_length unloaded_custom_beam \<noteq> 0"
    by (simp add: unloaded_custom_beam_def)
  obtain rs where rs: "calculateDiagrams unloaded_custom_beam = Some rs"
    "length rs = Suc POINTS"
    using diagrams_defined [OF len] by blast
  obtain rs' where rs': "calculateDiagrams_part1 unloaded_custom_beam = Some rs'"
    using diagrams_part1_defined [OF len] by blast
  have "rs ! 0 \<in> set rs" using rs(2) by simp
  then have "slope (rs ! 0) = NotFinite \<and> deflection (rs ! 0) = NotFinite"
    using diagrams_not_finite [OF EI_unloaded_custom rs(1)] by blast
  moreover have "slope (rs' ! 1) = NotFinite \<and> deflection (rs' ! 1) = NotFinite"
    using diagrams_part1_not_finite [OF EI_unloaded_custom rs', of 1]
    by (simp add: POINTS_part1_def)
  ultimately show ?thesis using rs rs' by (simp add: unloaded_custom_beam_def)
qed

subsection \<open>Boundary conditions at the supports\<close>

lemma finalize_slope_zero:
  "EI \<noteq> 0 \<Longrightarrow> fst item + C1 = 0 \<Longrightarrow> slope (finalize EI C1 C2 item r) = Num 0"
  by (simp add: finalize_def Let_def)

lemma finalize_deflection_zero:
  "EI \<noteq> 0 \<Longrightarrow> snd item + C1 * pos_x r + C2 = 0 \<Longrightarrow>
   deflection (finalize EI C1 C2 item r) = Num 0"
  by (simp add: finalize_def Let_def snap_def)

lemma finalize_part1_slope_zero:
  "t + c1 = 0 \<Longrightarrow> slope (finalize_part1 (Num c1) C2 (Num t, y) r) = Num 0"
  by (simp add: finalize_part1_def Let_def)

lemma finalize_part1_deflection_zero:
  "y + c1 * pos_x r + c2 = 0 \<Longrightarrow>
   deflection (finalize_part1 (Num c1) (Num c2) (t, Num y) r) = Num 0"
  by (simp add: finalize_part1_def Let_def snap_def)

lemma line_through_supports:
  fixes A B yA yB :: real
  assumes "B - A \<noteq> 0"
  shows "yB + (yA - yB) / (B - A) * B + (- yA - (yA - yB) / (B - A) * A) = 0"
proof -
  define c where "c = (yA - yB) / (B - A)"
  have "c * (B - A) = yA - yB" using assms by (simp add: c_def)
  then have "c * B - c * A = yA - yB" by (simp add: right_diff_distrib)
  then show ?thesis unfolding c_def [symmetric] by linarith
qed

lemma dx_nonzero: "beam_length s \<noteq> 0 \<Longrightarrow> beam_length s / real POINTS \<noteq> 0"
  by (simp add: POINTS_def)

lemma dx_part1_nonzero: "beam_length s \<noteq> 0 \<Longrightarrow> beam_length s / real POINTS_part1 \<noteq> 0"
  by (simp add: POINTS_part1_def)

lemma fixed_left_met:
  assumes "beam_type s = CantileverLeft" and "beam_length s \<noteq> 0" and "flexural_EI s \<noteq> 0"
    and "k \<le> POINTS" and "supportA s = real k * (beam_length s / real POINTS)"
  shows "\<exists>rs. calculateDiagrams s = Some rs \<and> pos_x (rs ! k) = supportA s \<and>
           slope (rs ! k) = Num 0 \<and> deflection (rs ! k) = Num 0"
proof -
  let ?dx = "beam_length s / real POINTS"
  let ?res = "pass1 s (calculateReactions s) ?dx"
  let ?C1 = "- fst (integrationData ?dx ?res k)"
  let ?C2 = "- snd (integrationData ?dx ?res k) - ?C1 * supportA s"
  have idx: "getIdx POINTS ?dx (supportA s) = Some k"
    using getIdx_on_grid [OF dx_nonzero [OF assms(2)] assms(4)] assms(5) by simp
  have bc: "boundary_constants s ?dx ?res = Some (?C1, ?C2)"
    using assms(1) idx by (simp add: boundary_constants_def Let_def)
  have x: "pos_x (sample s (calculateReactions s) ?dx k) = supportA s"
    using assms(5) by (simp add: sample_pos_x)
  have "k < length [0..<Suc POINTS]" using assms(4) by simp
  then show ?thesis
    using calculateDiagrams_Some [OF bc] x assms(3)
    by (simp del: upt_Suc add: finalize_slope_zero finalize_deflection_zero
          finalize_pass1_fields)
qed

lemma fixed_right_met:
  assumes "beam_type s = CantileverRight" and "flexural_EI s \<noteq> 0"
  shows "\<exists>rs. calculateDiagrams s = Some rs \<and> pos_x (rs ! POINTS) = beam_length s \<and>
           slope (rs ! POINTS) = Num 0 \<and> deflection (rs ! POINTS) = Num 0"
proof -
  let ?dx = "beam_length s / real POINTS"
  let ?res = "pass1 s (calculateReactions s) ?dx"
  let ?C1 = "- fst (integrationData ?dx ?res POINTS)"
  let ?C2 = "- snd (integrationData ?dx ?res POINTS) - ?C1 * beam_length s"
  have bc: "boundary_constants s ?dx ?res = Some (?C1, ?C2)"
    using assms(1) by (simp add: boundary_constants_def Let_def)
  have x: "pos_x (sample s (calculateReactions s) ?dx POINTS) = beam_length s"
    by (simp add: sample_pos_x POINTS_def)
  have "POINTS < length [0..<Suc POINTS]" by simp
  then show ?thesis
    using calculateDiagrams_Some [OF bc] x assms(2)
    by (simp del: upt_Suc add: finalize_slope_zero finalize_deflection_zero
          finalize_pass1_fields)
qed

lemma simple_supports_met:
  assumes "beam_type s = Simple" and "beam_length s \<noteq> 0" and "flexural_EI s \<noteq> 0"
    and "kA \<le> POINTS" and "supportA s = real kA * (beam_length s / real POINTS)"
    and "kB \<le> POINTS" and "supportB s = real kB * (beam_length s / real POINTS)"
    and "1 / 10000 < \<bar>supportB s - supportA s\<bar>"
  shows "\<exists>rs. calculateDiagrams s = Some rs \<and>
           pos_x (rs ! kA) = supportA s \<and> deflection (rs ! kA) = Num 0 \<and>
           pos_x (rs ! kB) = supportB s \<and> deflection (rs ! kB) = Num 0"
proof -
  let ?dx = "beam_length s / real POINTS"
  let ?res = "pass1 s (calculateReactions s) ?dx"
  let ?yA = "snd (integrationData ?dx ?res kA)"
  let ?yB = "snd (integrationData ?dx ?res kB)"
  let ?C1 = "(?yA - ?yB) / (supportB s - supportA s)"
  let ?C2 = "- ?yA - ?C1 * supportA s"
  have idxA: "getIdx POINTS ?dx (supportA s) = Some kA"
    using getIdx_on_grid [OF dx_nonzero [OF assms(2)] assms(4)] assms(5) by simp
  have idxB: "getIdx POINTS ?dx (supportB s) = Some kB"
    using getIdx_on_grid [OF dx_nonzero [OF assms(2)] assms(6)] assms(7) by simp
  have bc: "boundary_constants s ?dx ?res = Some (?C1, ?C2)"
    using assms(1) assms(8) idxA idxB by (simp add: boundary_constants_def Let_def)
  have xA: "pos_x (sample s (calculateReactions s) ?dx kA) = supportA s"
    using assms(5) by (simp add: sample_pos_x)
  have xB: "pos_x (sample s (calculateReactions s) ?dx kB) = supportB s"
    using assms(7) by (simp add: sample_pos_x)
  have ne: "supportB s - supportA s \<noteq> 0" using assms(8) by auto
  have zA: "?yA + ?C1 * supportA s + ?C2 = 0" by simp
  have zB: "?yB + ?C1 * supportB s + ?C2 = 0"
    using line_through_supports [OF ne] .
  have "kA < length [0..<Suc POINTS]" "kB < length [0..<Suc POINTS]"
    using assms(4) assms(6) by simp_all
  then show ?thesis
    using calculateDiagrams_Some [OF bc] xA xB assms(3) zA zB
    by (simp del: upt_Suc add: finalize_deflection_zero finalize_pass1_fields)
qed

lemma fixed_left_met_part1:
  assumes "beam_type s = CantileverLeft" and "beam_length s \<noteq> 0" and "flexural_EI s \<noteq> 0"
    and "k \<le> POINTS_part1" and "supportA s = real k * (beam_length s / real POINTS_part1)"
  shows "\<exists>rs. calculateDiagrams_part1 s = Some rs \<and> pos_x (rs ! k) = supportA s \<and>
           slope (rs ! k) = Num 0 \<and> deflection (rs ! k) = Num 0"
proof -
  let ?dx = "beam_length s / real POINTS_part1"
  let ?res = "pass1_part1 s (calculateReactions_part1 s) ?dx"
  obtain t y where ty: "integration_part1 (flexural_EI s) ?dx ?res k = (Num t, Num y)"
    using integration_part1_finite [OF assms(3)] by blast
  let ?C1 = "Num (- t)"
  let ?C2 = "Num (- y - (- t) * supportA s)"
  have idx: "getIdx POINTS_part1 ?dx (supportA s) = Some k"
    using getIdx_on_grid [OF dx_part1_nonzero [OF assms(2)] assms(4)] assms(5) by simp
  have bc: "boundary_constants_part1 s (flexural_EI s) ?dx ?res = Some (?C1, ?C2)"
    using assms(1) idx ty by (simp add: boundary_constants_part1_def Let_def)
  have x: "pos_x (sample_part1 s (calculateReactions_part1 s) ?dx k) = supportA s"
    using assms(5) by (simp add: sample_part1_pos_x)
  have "k < length [0..<Suc POINTS_part1]" using assms(4) by simp
  then show ?thesis
    using calculateDiagrams_part1_Some [OF bc] x ty
    by (simp del: upt_Suc add: finalize_part1_slope_zero finalize_part1_deflection_zero
          finalize_part1_pass1_fields)
qed

lemma fixed_right_met_part1:
  assumes "beam_type s = CantileverRight" and "flexural_EI s \<noteq> 0"
  shows "\<exists>rs. calculateDiagrams_part1 s = Some rs \<and>
           pos_x (rs ! POINTS_part1) = beam_length s \<and>
           slope (rs ! POINTS_part1) = Num 0 \<and> deflection (rs ! POINTS_part1) = Num 0"
proof -
  let ?dx = "beam_length s / real POINTS_part1"
  let ?res = "pass1_part1 s (calculateReactions_part1 s) ?dx"
  obtain t y where
    ty: "integration_part1 (flexural_EI s) ?dx ?res POINTS_part1 = (Num t, Num y)"
    using integration_part1_finite [OF assms(2)] by blast
  let ?C1 = "Num (- t)"
  let ?C2 = "Num (- y - (- t) * beam_length s)"
  have bc: "boundary_constants_part1 s (flexural_EI s) ?dx ?res = Some (?C1, ?C2)"
    using assms(1) ty by (simp add: boundary_constants_part1_def Let_def)
  have x: "pos_x (sample_part1 s (calculateReactions_part1 s) ?dx POINTS_part1)
             = beam_length s"
    by (simp add: sample_part1_pos_x POINTS_part1_def)
  have "POINTS_part1 < length [0..<Suc POINTS_part1]" by simp
  then show ?thesis
    using calculateDiagrams_part1_Some [OF bc] x ty
    by (simp del: upt_Suc add: finalize_part1_slope_zero finalize_part1_deflection_zero
          finalize_part1_pass1_fields)
qed

lemma simple_supports_met_part1:
  assumes "beam_type s = Simple" and "beam_length s \<noteq> 0" and "flexural_EI s \<noteq> 0"
    and "kA \<le> POINTS_part1" and "supportA s = real kA * (beam_length s / real POINTS_part1)"
    and "kB \<le> POINTS_part1" and "supportB s = real kB * (beam_length s / real POINTS_part1)"
    and "1 / 10000 < \<bar>supportB s - supportA s\<bar>"
  shows "\<exists>rs. calculateDiagrams_part1 s = Some rs \<and>
           pos_x (rs ! kA) = supportA s \<and> deflection (rs ! kA) = Num 0 \<and>
           pos_x (rs ! kB) = supportB s \<and> deflection (rs ! kB) = Num 0"
proof -
  let ?dx = "beam_length s / real POINTS_part1"
  let ?res = "pass1_part1 s (calculateReactions_part1 s) ?dx"
  obtain tA yA where A: "integration_part1 (flexural_EI s) ?dx ?res kA = (Num tA, Num yA)"
    using integration_part1_finite [OF assms(3)] by blast
  obtain tB yB where B: "integration_part1 (flexural_EI s) ?dx ?res kB = (Num tB, Num yB)"
    using integration_part1_finite [OF assms(3)] by blast
  let ?c1 = "(yA - yB) / (supportB s - supportA s)"
  let ?c2 = "- yA - ?c1 * supportA s"
  have idxA: "getIdx POINTS_part1 ?dx (supportA s) = Some kA"
    using getIdx_on_grid [OF dx_part1_nonzero [OF assms(2)] assms(4)] assms(5) by simp
  have idxB: "getIdx POINTS_part1 ?dx (supportB s) = Some kB"
    using getIdx_on_grid [OF dx_part1_nonzero [OF assms(2)] assms(6)] assms(7) by simp
  have ne: "supportB s - supportA s \<noteq> 0" using assms(8) by auto
  have bc: "boundary_constants_part1 s (flexural_EI s) ?dx ?res = Some (Num ?c1, Num ?c2)"
    using assms(1) assms(8) idxA idxB A B ne
    by (simp add: boundary_constants_part1_def Let_def)
  have xA: "pos_x (sample_part1 s (calculateReactions_part1 s) ?dx kA) = supportA s"
    using assms(5) by (simp add: sample_part1_pos_x)
  have xB: "pos_x (sample_part1 s (calculateReactions_part1 s) ?dx kB) = supportB s"
    using assms(7) by (simp add: sample_part1_pos_x)
  have zA: "yA + ?c1 * supportA s + ?c2 = 0" by simp
  have zB: "yB + ?c1 * supportB s + ?c2 = 0"
    using line_through_supports [OF ne] .
  have "kA < length [0..<Suc POINTS_part1]" "kB < length [0..<Suc POINTS_part1]"
    using assms(4) assms(6) by simp_all
  then show ?thesis
    using calculateDiagrams_part1_Some [OF bc] xA xB A B zA zB
    by (simp del: upt_Suc add: finalize_part1_deflection_zero finalize_part1_pass1_fields)
qed

lemma EI_simple_midspan: "flexural_EI simple_midspan_load = 342"
  by (simp add: flexural_EI_def simple_midspan_load_def steel_def ipe_100_def)

lemma EI_right_tip: "flexural_EI cantilever_right_tip_load = 342"
  by (simp add: flexural_EI_def cantilever_right_tip_load_def steel_def ipe_100_def)

lemma EI_right_custom: "flexural_EI cantilever_right_custom = 0"
  by (simp add: flexural_EI_def cantilever_right_custom_def custom_profile_def)

text \<open>
  Claim C8, as the code has it. Let the length and the flexural stiffness \<open>EI\<close> be
  other than 0. After the boundary conditions are resolved: for a left cantilever whose
  \<open>supportA\<close> is the position of sample \<open>k\<close>, the final slope and deflection of that
  sample are 0; for a right cantilever they are 0 at the last sample, whose position is
  the length; for a simple span whose supports are more than 1e-4 apart and are the
  positions of samples \<open>kA\<close> and \<open>kB\<close>, the final deflection of both samples is 0.
  This holds for both versions of \<open>calculateDiagrams\<close>, each on its own grid of
  samples.
\<close>

theorem boundary_conditions_met:
  assumes "beam_length s \<noteq> 0" and "flexural_EI s \<noteq> 0"
  shows
    "(beam_type s = CantileverLeft \<and> k \<le> POINTS \<and>
        supportA s = real k * (beam_length s / real POINTS) \<longrightarrow>
        (\<exists>rs. calculateDiagrams s = Some rs \<and> pos_x (rs ! k) = supportA s \<and>
           slope (rs ! k) = Num 0 \<and> deflection (rs ! k) = Num 0)) \<and>
     (beam_type s = CantileverLeft \<and> k' \<le> POINTS_part1 \<and>
        supportA s = real k' * (beam_length s / real POINTS_part1) \<longrightarrow>
        (\<exists>rs. calculateDiagrams_part1 s = Some rs \<and> pos_x (rs ! k') = supportA s \<and>
           slope (rs ! k') = Num 0 \<and> deflection (rs ! k') = Num 0)) \<and>
     (beam_type s = CantileverRight \<longrightarrow>
        (\<exists>rs. calculateDiagrams s = Some rs \<and> pos_x (rs ! POINTS) = beam_length s \<and>
           slope (rs ! POINTS) = Num 0 \<and> deflection (rs ! POINTS) = Num 0) \<and>
        (\<exists>rs. calculateDiagrams_part1 s = Some rs \<and>
           pos_x (rs ! POINTS_part1) = beam_length s \<and>
           slope (rs ! POINTS_part1) = Num 0 \<and> deflection (rs ! POINTS_part1) = Num 0)) \<and>
     (beam_type s = Simple \<and> 1 / 10000 < \<bar>supportB s - supportA s\<bar> \<and>
        kA \<le> POINTS \<and> supportA s = real kA * (beam_length s / real POINTS) \<and>
        kB \<le> POINTS \<and> supportB s = real kB * (beam_length s / real POINTS) \<longrightarrow>
        (\<exists>rs. calculateDiagrams s = Some rs \<and>
           pos_x (rs ! kA) = supportA s \<and> deflection (rs ! kA) = Num 0 \<and>
           pos_x (rs ! kB) = supportB s \<and> deflection (rs ! kB) = Num 0)) \<and>
     (beam_type s = Simple \<and> 1 / 10000 < \<bar>supportB s - supportA s\<bar> \<and>
        kA' \<le> POINTS_part1 \<and> supportA s = real kA' * (beam_length s / real POINTS_part1) \<and>
        kB' \<le> POINTS_part1 \<and> supportB s = real kB' * (beam_length s / real POINTS_part1) \<longrightarrow>
        (\<exists>rs. calculateDiagrams_part1 s = Some rs \<and>
           pos_x (rs ! kA') = supportA s \<and> deflection (rs ! kA') = Num 0 \<and>
           pos_x (rs ! kB') = supportB s \<and> deflection (rs ! kB') = Num 0))"
  using fixed_left_met [OF _ assms] fixed_left_met_part1 [OF _ assms]
    fixed_right_met [OF _ assms(2)] fixed_right_met_part1 [OF _ assms(2)]
    simple_supports_met [OF _ assms] simple_supports_met_part1 [OF _ assms]
  by blast

theorem boundary_conditions_met_witness:
  "beam_length cantilever_tip_load \<noteq> 0 \<and> flexural_EI cantilever_tip_load \<noteq> 0 \<and>
   beam_type cantilever_tip_load = CantileverLeft \<and>
   supportA cantilever_tip_load = real 0 * (beam_length cantilever_tip_load / real POINTS) \<and>
   slope (the (calculateDiagrams cantilever_tip_load) ! 0) = Num 0 \<and>
   deflection (the (calculateDiagrams cantilever_tip_load) ! 0) = Num 0 \<and>
   slope (the (calculateDiagrams_part1 cantilever_tip_load) ! 0) = Num 0 \<and>
   deflection (the (calculateDiagrams_part1 cantilever_tip_load) ! 0) = Num 0 \<and>
   beam_length cantilever_right_tip_load \<noteq> 0 \<and>
   flexural_EI cantilever_right_tip_load \<noteq> 0 \<and>
   beam_type cantilever_right_tip_load = CantileverRight \<and>
   slope (the (calculateDiagrams cantilever_right_tip_load) ! POINTS) = Num 0 \<and>
   deflection (the (calculateDiagrams cantilever_right_tip_load) ! POINTS) = Num 0 \<and>
   slope (the (calculateDiagrams_part1 cantilever_right_tip_load) ! POINTS_part1) = Num 0 \<and>
   deflection (the (calculateDiagrams_part1 cantilever_right_tip_load) ! POINTS_part1)
     = Num 0 \<and>
   beam_length simple_midspan_load \<noteq> 0 \<and> flexural_EI simple_midspan_load \<noteq> 0 \<and>
   beam_type simple_midspan_load = Simple \<and>
   1 / 10000 < \<bar>supportB simple_midspan_load - supportA simple_midspan_load\<bar> \<and>
   supportA simple_midspan_load = real 0 * (beam_length simple_midspan_load / real POINTS) \<and>
   supportB simple_midspan_load
     = real 200 * (beam_length simple_midspan_load / real POINTS) \<and>
   deflection (the (calculateDiagrams simple_midspan_load) ! 0) = Num 0 \<and>
   deflection (the (calculateDiagrams simple_midspan_load) ! 200) = Num 0 \<and>
   deflection (the (calculateDiagrams_part1 simple_midspan_load) ! 0) = Num 0 \<and>
   deflection (the (calculateDiagrams_part1 simple_midspan_load) ! 400) = Num 0"
proof -
  have tip: "beam_length cantilever_tip_load \<noteq> 0" "flexural_EI cantilever_tip_load \<noteq> 0"
    "beam_type cantilever_tip_load = CantileverLeft"
    "supportA cantilever_tip_load = real 0 * (beam_length cantilever_tip_load / real POINTS)"
    "supportA cantilever_tip_load
       = real 0 * (beam_length cantilever_tip_load / real POINTS_part1)"
    by (simp_all add: EI_tip) (simp_all add: cantilever_tip_load_def)
  have right: "beam_length cantilever_right_tip_load \<noteq> 0"
    "flexural_EI cantilever_right_tip_load \<noteq> 0"
    "beam_type cantilever_right_tip_load = CantileverRight"
    by (simp_all add: EI_right_tip) (simp_all add: cantilever_right_tip_load_def)
  have simple: "beam_length simple_midspan_load \<noteq> 0" "flexural_EI simple_midspan_load \<noteq> 0"
    "beam_type simple_midspan_load = Simple"
    "1 / 10000 < \<bar>supportB simple_midspan_load - supportA simple_midspan_load\<bar>"
    "supportA simple_midspan_load = real 0 * (beam_length simple_midspan_load / real POINTS)"
    "supportB simple_midspan_load
       = real 200 * (beam_length simple_midspan_load / real POINTS)"
    "supportA simple_midspan_load
       = real 0 * (beam_length simple_midspan_load / real POINTS_part1)"
    "supportB simple_midspan_load
       = real 400 * (beam_length simple_midspan_load / real POINTS_part1)"
    by (simp_all add: EI_simple_midspan)
       (simp_all add: simple_midspan_load_def POINTS_def POINTS_part1_def)
  have le: "(0::nat) \<le> POINTS" "(0::nat) \<le> POINTS_part1" "(200::nat) \<le> POINTS"
    "(400::nat) \<le> POINTS_part1"
    by (simp_all add: POINTS_def POINTS_part1_def)
  note t1 = boundary_conditions_met [OF tip(1) tip(2), of 0 0]
  note t2 = boundary_conditions_met [OF right(1) right(2)]
  note t3 = boundary_conditions_met [OF simple(1) simple(2), of _ _ 0 200 0 400]
  have a: "slope (the (calculateDiagrams cantilever_tip_load) ! 0) = Num 0 \<and>
           deflection (the (calculateDiagrams cantilever_tip_load) ! 0) = Num 0 \<and>
           slope (the (calculateDiagrams_part1 cantilever_tip_load) ! 0) = Num 0 \<and>
           deflection (the (calculateDiagrams_part1 cantilever_tip_load) ! 0) = Num 0"
    using t1 tip le by force
  have b: "slope (the (calculateDiagrams cantilever_right_tip_load) ! POINTS) = Num 0 \<and>
           deflection (the (calculateDiagrams cantilever_right_tip_load) ! POINTS) = Num 0 \<and>
           slope (the (calculateDiagrams_part1 cantilever_right_tip_load) ! POINTS_part1)
             = Num 0 \<and>
           deflection (the (calculateDiagrams_part1 cantilever_right_tip_load) ! POINTS_part1)
             = Num 0"
    using t2 right by force
  have c: "deflection (the (calculateDiagrams simple_midspan_load) ! 0) = Num 0 \<and>
           deflection (the (calculateDiagrams simple_midspan_load) ! 200) = Num 0 \<and>
           deflection (the (calculateDiagrams_part1 simple_midspan_load) ! 0) = Num 0 \<and>
           deflection (the (calculateDiagrams_part1 simple_midspan_load) ! 400) = Num 0"
    using t3 simple le by force
  show ?thesis
    using a b c tip right simple by simp
qed

text \<open>
  The claim C8 as stated fails for the right cantilever with the profile Custom
  (\<open>EI = 0\<close>): the slope and deflection of the last sample, at the fixed end, are not
  finite, so not 0.
\<close>

theorem zero_stiffness_fixed_end_not_zero:
  "beam_type cantilever_right_custom = CantileverRight \<and>
   calculateDiagrams cantilever_right_custom \<noteq> None \<and>
   pos_x (the (calculateDiagrams cantilever_right_custom) ! POINTS)
     = beam_length cantilever_right_custom \<and>
   slope (the (calculateDiagrams cantilever_right_custom) ! POINTS) = NotFinite \<and>
   deflection (the (calculateDiagrams cantilever_right_custom) ! POINTS) = NotFinite \<and>
   calculateDiagrams_part1 cantilever_right_custom \<noteq> None \<and>
   pos_x (the (calculateDiagrams_part1 cantilever_right_custom) ! POINTS_part1)
     = beam_length cantilever_right_custom \<and>
   slope (the (calculateDiagrams_part1 cantilever_right_custom) ! POINTS_part1) = NotFinite \<and>
   deflection (the (calculateDiagrams_part1 cantilever_right_custom) ! POINTS_part1)
     = NotFinite"
proof -
  have len: "beam_length cantilever_right_custom \<noteq> 0"
    by (simp add: cantilever_right_custom_def)
  obtain rs where rs: "calculateDiagrams cantilever_right_custom = Some rs"
    "length rs = Suc POINTS"
    using diagrams_defined [OF len] by blast
  obtain rs' where rs': "calculateDiagrams_part1 cantilever_right_custom = Some rs'"
    using diagrams_part1_defined [OF len] by blast
  have "rs ! POINTS \<in> set rs" using rs(2) by simp
  then have "slope (rs ! POINTS) = NotFinite \<and> deflection (rs ! POINTS) = NotFinite"
    using diagrams_not_finite [OF EI_right_custom rs(1)] by blast
  moreover have "slope (rs' ! POINTS_part1) = NotFinite \<and>
                 deflection (rs' ! POINTS_part1) = NotFinite"
    using diagrams_part1_not_finite [OF EI_right_custom rs', of POINTS_part1]
    by (simp add: POINTS_part1_def)
  moreover have "pos_x (rs ! POINTS) = beam_length cantilever_right_custom"
    using diagrams_pass1_fields [OF rs(1), of POINTS] by (simp add: POINTS_def)
  moreover have "pos_x (rs' ! POINTS_part1) = beam_length cantilever_right_custom"
    using diagrams_part1_pass1_fields [OF rs', of POINTS_part1] by (simp add: POINTS_part1_def)
  ultimately show ?thesis
    using rs rs' by (simp add: cantilever_right_custom_def)
qed

subsection \<open>Coincident supports of a simple span\<close>

lemma boundary_constants_degenerate:
  assumes "beam_type s = Simple" and "\<bar>supportB s - supportA s\<bar> < 1 / 10000"
    and "dx \<noteq> 0"
  shows "boundary_constants s dx results = Some (0, 0) \<and>
         boundary_constants_part1 s EI dx results' = Some (Num 0, Num 0)"
  using assms getIdx_defined [OF assms(3), of POINTS "supportA s"]
    getIdx_defined [OF assms(3), of POINTS "supportB s"]
    getIdx_defined [OF assms(3), of POINTS_part1 "supportA s"]
    getIdx_defined [OF assms(3), of POINTS_part1 "supportB s"]
  by (auto simp: boundary_constants_def boundary_constants_part1_def Let_def)

lemma finalize_uncorrected:
  "deflection (finalize EI 0 0 item r) =
     jsnap (1 / 100000) (jmul (jdiv (Num (snd item)) EI) (Num 1000))"
  by (simp add: finalize_def Let_def)

lemma finalize_part1_uncorrected:
  "deflection (finalize_part1 (Num 0) (Num 0) item r) =
     jsnap (1 / 1000) (jmul (snd item) (Num 1000))"
  by (cases "snd item") (simp_all add: finalize_part1_def Let_def)

lemma EI_coincident: "flexural_EI coincident_supports = 342"
  by (simp add: flexural_EI_def coincident_supports_def steel_def ipe_100_def)

lemma coincident_sample:
  "sample coincident_supports \<lparr>Ra = 0, Rb = 0, Ma = 0\<rparr> dx i =
     \<lparr>pos_x = real i * dx,
      shear = (if real i * dx > 0 then - 1000 else 0),
      moment = (if real i * dx > 0 then - (1000 * (real i * dx)) else 0),
      slope = Num 0, deflection = Num 0\<rparr>"
  by (simp add: sample_def Let_def coincident_supports_def reactions_shear_def
      reactions_moment_def load_shear_step_def load_moment_step_def)

lemma coincident_sample_part1:
  "sample_part1 coincident_supports \<lparr>Ra = 0, Rb = 0, Ma = 0\<rparr> dx i =
     \<lparr>pos_x = real i * dx,
      shear = (if real i * dx > 0 then - 1000 else 0),
      moment = (if real i * dx > 0 then - (1000 * (real i * dx)) else 0),
      slope = Num 0, deflection = Num 0\<rparr>"
  by (simp add: sample_part1_def Let_def coincident_supports_def)

lemma coincident_integration:
  "integrationData (1 / 20) (pass1 coincident_supports \<lparr>Ra = 0, Rb = 0, Ma = 0\<rparr> (1 / 20)) 1
     = (- 5 / 4, - 1 / 32)"
proof -
  have "(0::nat) \<le> POINTS" "Suc 0 \<le> POINTS" by (simp_all add: POINTS_def)
  then show ?thesis
    by (simp add: pass1_nth coincident_sample Let_def)
qed

lemma coincident_integration_part1:
  "integration_part1 342 (1 / 40)
     (pass1_part1 coincident_supports \<lparr>Ra = 0, Rb = 0, Ma = 0\<rparr> (1 / 40)) 1
     = (Num (- 5 / 5472), Num (- 1 / 43776))"
proof -
  have "(0::nat) \<le> POINTS_part1" "Suc 0 \<le> POINTS_part1" by (simp_all add: POINTS_part1_def)
  then show ?thesis
    by (simp add: pass1_part1_nth coincident_sample_part1 Let_def)
qed

lemma coincident_facts:
  "beam_type coincident_supports = Simple"
  "\<bar>supportB coincident_supports - supportA coincident_supports\<bar> < 1 / 10000"
  "beam_length coincident_supports \<noteq> 0"
  "beam_length coincident_supports / real POINTS = 1 / 20"
  "beam_length coincident_supports / real POINTS_part1 = 1 / 40"
  by (simp_all add: coincident_supports_def POINTS_def POINTS_part1_def)

text \<open>
  Claim C4, as the code has it. For a simple span whose supports are closer than 1e-4,
  and for every load list, both versions of \<open>calculateReactions\<close> return all-zero
  reactions; when the length is not 0, \<open>calculateDiagrams\<close> leaves both integration
  constants at zero, and the deflection of every sample is the uncorrected double
  integral of the sampled moment (over \<open>EI\<close>, times 1000, snapped to 0 below the
  tolerance). The loads still enter the moment, so this deflection is not zero in
  general.
\<close>

theorem coincident_supports_fallback:
  assumes "beam_type s = Simple" and "\<bar>supportB s - supportA s\<bar> < 1 / 10000"
  shows "calculateReactions s = \<lparr>Ra = 0, Rb = 0, Ma = 0\<rparr> \<and>
         calculateReactions_part1 s = \<lparr>Ra = 0, Rb = 0, Ma = 0\<rparr> \<and>
         (beam_length s \<noteq> 0 \<longrightarrow>
            boundary_constants s (beam_length s / real POINTS)
              (pass1 s (calculateReactions s) (beam_length s / real POINTS)) = Some (0, 0) \<and>
            boundary_constants_part1 s (flexural_EI s) (beam_length s / real POINTS_part1)
              (pass1_part1 s (calculateReactions_part1 s) (beam_length s / real POINTS_part1))
              = Some (Num 0, Num 0) \<and>
            (\<exists>rs. calculateDiagrams s = Some rs \<and>
               (\<forall>i \<le> POINTS. deflection (rs ! i) =
                  jsnap (1 / 100000)
                    (jmul (jdiv (Num (snd (integrationData (beam_length s / real POINTS)
                       (pass1 s (calculateReactions s) (beam_length s / real POINTS)) i)))
                       (flexural_EI s)) (Num 1000)))) \<and>
            (\<exists>rs. calculateDiagrams_part1 s = Some rs \<and>
               (\<forall>i \<le> POINTS_part1. deflection (rs ! i) =
                  jsnap (1 / 1000)
                    (jmul (snd (integration_part1 (flexural_EI s)
                       (beam_length s / real POINTS_part1)
                       (pass1_part1 s (calculateReactions_part1 s)
                          (beam_length s / real POINTS_part1)) i))
                       (Num 1000)))))"
proof -
  let ?dx = "beam_length s / real POINTS"
  let ?dx' = "beam_length s / real POINTS_part1"
  let ?res = "pass1 s (calculateReactions s) ?dx"
  let ?res' = "pass1_part1 s (calculateReactions_part1 s) ?dx'"
  have r: "calculateReactions s = \<lparr>Ra = 0, Rb = 0, Ma = 0\<rparr> \<and>
           calculateReactions_part1 s = \<lparr>Ra = 0, Rb = 0, Ma = 0\<rparr>"
    using reactions_degenerate [OF assms] .
  have "boundary_constants s ?dx ?res = Some (0, 0) \<and>
        boundary_constants_part1 s (flexural_EI s) ?dx' ?res' = Some (Num 0, Num 0) \<and>
        (\<exists>rs. calculateDiagrams s = Some rs \<and>
           (\<forall>i \<le> POINTS. deflection (rs ! i) =
              jsnap (1 / 100000)
                (jmul (jdiv (Num (snd (integrationData ?dx ?res i))) (flexural_EI s))
                   (Num 1000)))) \<and>
        (\<exists>rs. calculateDiagrams_part1 s = Some rs \<and>
           (\<forall>i \<le> POINTS_part1. deflection (rs ! i) =
              jsnap (1 / 1000)
                (jmul (snd (integration_part1 (flexural_EI s) ?dx' ?res' i)) (Num 1000))))"
    if len: "beam_length s \<noteq> 0"
  proof -
    have bc: "boundary_constants s ?dx ?res = Some (0, 0)"
      using boundary_constants_degenerate [OF assms dx_nonzero [OF len]] by blast
    have bc': "boundary_constants_part1 s (flexural_EI s) ?dx' ?res' = Some (Num 0, Num 0)"
      using boundary_constants_degenerate [OF assms dx_part1_nonzero [OF len]] by blast
    have "\<forall>i \<le> POINTS. deflection (the (calculateDiagrams s) ! i) =
              jsnap (1 / 100000)
                (jmul (jdiv (Num (snd (integrationData ?dx ?res i))) (flexural_EI s))
                   (Num 1000))"
      using calculateDiagrams_Some [OF bc]
      by (simp del: upt_Suc add: finalize_uncorrected)
    moreover have "\<forall>i \<le> POINTS_part1. deflection (the (calculateDiagrams_part1 s) ! i) =
              jsnap (1 / 1000)
                (jmul (snd (integration_part1 (flexural_EI s) ?dx' ?res' i)) (Num 1000))"
      using calculateDiagrams_part1_Some [OF bc']
      by (simp del: upt_Suc add: finalize_part1_uncorrected)
    ultimately show ?thesis
      using bc bc' calculateDiagrams_Some [OF bc] calculateDiagrams_part1_Some [OF bc']
      by (simp del: upt_Suc)
  qed
  then show ?thesis using r by blast
qed

theorem coincident_supports_fallback_witness:
  "beam_type coincident_supports = Simple \<and>
   \<bar>supportB coincident_supports - supportA coincident_supports\<bar> < 1 / 10000 \<and>
   beam_length coincident_supports \<noteq> 0 \<and>
   calculateReactions coincident_supports = \<lparr>Ra = 0, Rb = 0, Ma = 0\<rparr> \<and>
   calculateReactions_part1 coincident_supports = \<lparr>Ra = 0, Rb = 0, Ma = 0\<rparr> \<and>
   boundary_constants coincident_supports (beam_length coincident_supports / real POINTS)
     (pass1 coincident_supports (calculateReactions coincident_supports)
        (beam_length coincident_supports / real POINTS)) = Some (0, 0) \<and>
   calculateDiagrams coincident_supports \<noteq> None \<and>
   calculateDiagrams_part1 coincident_supports \<noteq> None"
  using coincident_supports_fallback [OF coincident_facts(1) coincident_facts(2)]
    coincident_facts(1-3)
  by auto

text \<open>
  The claim C4 as stated fails for the simple span with both supports at 5 and a point
  load 1000 at position 0: the deflection of sample 1 is not zero in either version.
\<close>

theorem coincident_supports_deflection_not_zero:
  "beam_type coincident_supports = Simple \<and>
   \<bar>supportB coincident_supports - supportA coincident_supports\<bar> < 1 / 10000 \<and>
   calculateDiagrams coincident_supports \<noteq> None \<and>
   deflection (the (calculateDiagrams coincident_supports) ! 1) = Num (- 125 / 1368) \<and>
   calculateDiagrams_part1 coincident_supports \<noteq> None \<and>
   deflection (the (calculateDiagrams_part1 coincident_supports) ! 1) = Num (- 125 / 5472)"
proof -
  have r: "calculateReactions coincident_supports = \<lparr>Ra = 0, Rb = 0, Ma = 0\<rparr>"
    "calculateReactions_part1 coincident_supports = \<lparr>Ra = 0, Rb = 0, Ma = 0\<rparr>"
    using reactions_degenerate [OF coincident_facts(1) coincident_facts(2)] by simp_all
  have bc: "boundary_constants coincident_supports (1 / 20)
              (pass1 coincident_supports \<lparr>Ra = 0, Rb = 0, Ma = 0\<rparr> (1 / 20)) = Some (0, 0)"
    and bc': "boundary_constants_part1 coincident_supports 342 (1 / 40)
              (pass1_part1 coincident_supports \<lparr>Ra = 0, Rb = 0, Ma = 0\<rparr> (1 / 40))
              = Some (Num 0, Num 0)"
    using boundary_constants_degenerate [OF coincident_facts(1) coincident_facts(2)]
    by simp_all
  have i: "(1::nat) < length [0..<Suc POINTS]" "(1::nat) < length [0..<Suc POINTS_part1]"
    by (simp_all add: POINTS_def POINTS_part1_def)
  have v1: "the (calculateDiagrams coincident_supports) ! 1 =
          finalize 342 0 0 (- 5 / 4, - 1 / 32)
            (sample coincident_supports \<lparr>Ra = 0, Rb = 0, Ma = 0\<rparr> (1 / 20) 1)"
    using calculateDiagrams_Some [of coincident_supports 0 0] bc i(1)
    by (simp del: upt_Suc One_nat_def
          add: r coincident_facts EI_coincident coincident_integration)
  have p1: "the (calculateDiagrams_part1 coincident_supports) ! 1 =
          finalize_part1 (Num 0) (Num 0) (Num (- 5 / 5472), Num (- 1 / 43776))
            (sample_part1 coincident_supports \<lparr>Ra = 0, Rb = 0, Ma = 0\<rparr> (1 / 40) 1)"
    using calculateDiagrams_part1_Some [of coincident_supports "Num 0" "Num 0"] bc' i(2)
    by (simp del: upt_Suc One_nat_def
          add: r coincident_facts EI_coincident coincident_integration_part1)
  have "deflection (the (calculateDiagrams coincident_supports) ! 1) = Num (- 125 / 1368)"
    unfolding v1 by (simp add: finalize_uncorrected snap_def)
  moreover have "deflection (the (calculateDiagrams_part1 coincident_supports) ! 1)
                   = Num (- 125 / 5472)"
    unfolding p1 by (simp add: finalize_part1_uncorrected snap_def)
  moreover have "calculateDiagrams coincident_supports \<noteq> None"
    "calculateDiagrams_part1 coincident_supports \<noteq> None"
    using diagrams_defined [OF coincident_facts(3)]
      diagrams_part1_defined [OF coincident_facts(3)] by auto
  ultimately show ?thesis
    using coincident_facts(1) coincident_facts(2) by simp
qed

subsection \<open>The store: allocation and the layout a call leaves\<close>

lemma length_addrs: "length (addrs base n) = n"
  by (simp add: addrs_def)

lemma nth_addrs: "i < n \<Longrightarrow> addrs base n ! i = base + i"
  by (simp add: addrs_def del: upt_Suc)

lemma addrs_Suc: "addrs base (Suc n) = addrs base n @ [base + n]"
  by (simp add: addrs_def)

lemma addrs_0: "addrs base 0 = []"
  by (simp add: addrs_def)

lemma push_shape:
  "push (length pre) ob (pre @ ArrayObj refs # rest) =
     pre @ ArrayObj (refs @ [Suc (length pre + length rest)]) # (rest @ [ob])"
  by (simp add: push_def alloc_def lookup_def list_update_append)

lemma fold_push_shape:
  "fold (\<lambda>i. push (length pre) (f i)) xs
     (pre @ ArrayObj (addrs (Suc (length pre)) (length rest)) # rest) =
   pre @ ArrayObj (addrs (Suc (length pre)) (length rest + length xs)) # (rest @ map f xs)"
proof (induction xs arbitrary: rest)
  case Nil
  show ?case by simp
next
  case (Cons x xs)
  have "push (length pre) (f x)
          (pre @ ArrayObj (addrs (Suc (length pre)) (length rest)) # rest) =
        pre @ ArrayObj (addrs (Suc (length pre)) (length (rest @ [f x]))) # (rest @ [f x])"
    by (simp add: push_shape addrs_Suc)
  then show ?case
    using Cons.IH [of "rest @ [f x]"] by simp
qed

lemma layout_results_array:
  "lookup (layout pre rs items) (length pre) =
     Some (ArrayObj (addrs (Suc (length pre)) (length rs)))"
  by (simp add: layout_def lookup_def)

lemma layout_result:
  "i < length rs \<Longrightarrow>
   lookup (layout pre rs items) (Suc (length pre + i)) = Some (ResultObj (rs ! i))"
  by (simp add: layout_def lookup_def nth_append)

lemma layout_integration_array:
  "lookup (layout pre rs items) (Suc (length pre + length rs)) =
     Some (ArrayObj (addrs (Suc (Suc (length pre + length rs))) (length items)))"
  by (simp add: layout_def lookup_def nth_append)

lemma layout_item:
  "i < length items \<Longrightarrow>
   lookup (layout pre rs items) (Suc (Suc (length pre + length rs + i))) = Some (items ! i)"
  by (simp add: layout_def lookup_def nth_append)

lemma layout_update:
  "i < length rs \<Longrightarrow>
   (layout pre rs items)[Suc (length pre + i) := ResultObj r] = layout pre (rs[i := r]) items"
  by (simp add: layout_def list_update_append map_update)

lemma rewrite_result_layout:
  assumes "i < length rs" and "i < length items" and "fin (items ! i) (rs ! i) = Some r'"
  shows "rewrite_result fin (length pre) (Suc (length pre + length rs)) i
           (layout pre rs items) = layout pre (rs[i := r']) items"
  using assms layout_result [OF assms(1), of pre items] layout_item [OF assms(2), of pre rs]
    layout_update [OF assms(1), of pre items r']
  by (simp add: rewrite_result_def layout_results_array layout_integration_array
        length_addrs nth_addrs)

lemma fold_rewrite_result_layout:
  assumes "length items = length rs"
    and "\<And>i. i < length rs \<Longrightarrow> fin (items ! i) (rs ! i) = Some (g i)"
    and "k \<le> length rs"
  shows "fold (rewrite_result fin (length pre) (Suc (length pre + length rs))) [0..<k]
           (layout pre rs items) =
         layout pre (map (\<lambda>i. if i < k then g i else rs ! i) [0..<length rs]) items"
  using assms(3)
proof (induction k)
  case 0
  have "map (\<lambda>i. rs ! i) [0..<length rs] = rs" by (rule map_nth)
  then show ?case by simp
next
  case (Suc k)
  let ?rs = "map (\<lambda>i. if i < k then g i else rs ! i) [0..<length rs]"
  have k: "k < length rs" using Suc.prems by simp
  have len: "length ?rs = length rs" by simp
  have at: "?rs ! k = rs ! k" using k by simp
  have step: "rewrite_result fin (length pre) (Suc (length pre + length ?rs)) k
                (layout pre ?rs items) = layout pre (?rs[k := g k]) items"
    using k assms(1) assms(2) [OF k] at
    by (intro rewrite_result_layout) (simp_all del: upt_Suc)
  have upd: "?rs[k := g k] = map (\<lambda>i. if i < Suc k then g i else rs ! i) [0..<length rs]"
    using k by (intro nth_equalityI) (auto simp: nth_list_update less_Suc_eq simp del: upt_Suc)
  have "fold (rewrite_result fin (length pre) (Suc (length pre + length rs))) [0..<Suc k]
          (layout pre rs items) =
        rewrite_result fin (length pre) (Suc (length pre + length rs)) k
          (fold (rewrite_result fin (length pre) (Suc (length pre + length rs))) [0..<k]
             (layout pre rs items))"
    by simp
  also have "\<dots> = rewrite_result fin (length pre) (Suc (length pre + length rs)) k
                     (layout pre ?rs items)"
    using Suc.IH k by simp
  also have "\<dots> = layout pre (?rs[k := g k]) items"
    using step by (simp only: len)
  finally show ?case
    by (simp only: upd)
qed

lemma fold_rewrite_result_all:
  assumes "length items = length rs"
    and "\<And>i. i < length rs \<Longrightarrow> fin (items ! i) (rs ! i) = Some (g i)"
  shows "fold (rewrite_result fin (length pre) (Suc (length pre + length rs)))
           [0..<length rs] (layout pre rs items) =
         layout pre (map g [0..<length rs]) items"
proof -
  have e: "map (\<lambda>i. if i < length rs then g i else rs ! i) [0..<length rs]
           = map g [0..<length rs]"
    by (rule map_cong) simp_all
  have "fold (rewrite_result fin (length pre) (Suc (length pre + length rs)))
           [0..<length rs] (layout pre rs items) =
         layout pre (map (\<lambda>i. if i < length rs then g i else rs ! i) [0..<length rs]) items"
    using assms by (intro fold_rewrite_result_layout) simp_all
  then show ?thesis unfolding e .
qed

lemma read_results_layout:
  "read_results (layout pre rs items) (length pre) = Some rs"
proof -
  have "map (read_result (layout pre rs items)) (addrs (Suc (length pre)) (length rs))
        = map Some rs"
    by (intro nth_equalityI) (simp_all add: read_result_def layout_result length_addrs nth_addrs)
  moreover have "those (map Some rs) = Some rs"
    by (induction rs) simp_all
  ultimately show ?thesis
    by (simp add: read_results_def layout_results_array)
qed

lemma those_Some_all: "those xs = Some ys \<Longrightarrow> xs = map Some ys"
proof (induction xs arbitrary: ys)
  case Nil
  then show ?case by simp
next
  case (Cons x xs)
  then show ?case by (cases x; cases "those xs") auto
qed

lemma lookup_append: "lookup h p = Some ob \<Longrightarrow> lookup (h @ ext) p = Some ob"
  by (auto simp: lookup_def nth_append split: if_splits)

lemma read_load_append: "read_load h p = Some l \<Longrightarrow> read_load (h @ ext) p = Some l"
  by (auto simp: read_load_def split: option.splits obj.splits dest: lookup_append [of _ _ _ ext])

lemma read_loads_append:
  assumes "read_loads h a = Some ls"
  shows "read_loads (h @ ext) a = Some ls"
proof -
  obtain refs where refs: "lookup h a = Some (ArrayObj refs)"
    and ls: "those (map (read_load h) refs) = Some ls"
    using assms by (auto simp: read_loads_def split: option.splits obj.splits)
  have "map (read_load h) refs = map Some ls"
    using those_Some_all [OF ls] .
  then have "\<forall>p \<in> set refs. \<exists>l. read_load h p = Some l"
    by (metis (no_types, lifting) in_set_conv_nth length_map nth_map)
  then have m: "map (read_load (h @ ext)) refs = map (read_load h) refs"
    by (intro map_cong refl) (metis read_load_append)
  have "read_loads (h @ ext) a = those (map (read_load (h @ ext)) refs)"
    using lookup_append [OF refs, of ext] by (simp add: read_loads_def)
  also have "\<dots> = those (map (read_load h) refs)"
    by (simp only: m)
  finally show ?thesis
    using ls by simp
qed

lemma read_state_append:
  assumes "read_state h a = Some s"
  shows "read_state (h @ ext) a = Some s"
proof -
  obtain so ls m p where so: "lookup h a = Some (StateObj so)"
    and parts: "read_loads h (o_loads so) = Some ls"
      "lookup h (o_material so) = Some (MaterialObj m)"
      "lookup h (o_profile so) = Some (ProfileObj p)"
    using assms
    by (auto simp: read_state_def read_material_def read_profile_def
             split: option.splits obj.splits)
  show ?thesis
    using assms lookup_append [OF so, of ext] read_loads_append [OF parts(1), of ext]
      lookup_append [OF parts(2), of ext] lookup_append [OF parts(3), of ext] so parts
    by (simp add: read_state_def read_material_def read_profile_def)
qed

lemma layout_frame:
  "take (length h) (layout (h @ ext) rs items) = h"
  by (simp add: layout_def)

lemma layout_read_state:
  "read_state h a = Some s \<Longrightarrow> read_state (layout (h @ ext) rs items) a = Some s"
  unfolding layout_def append_assoc by (rule read_state_append)

lemma diagrams_store_layout:
  assumes "read_state h a = Some s"
  shows "calculateDiagrams_store h a =
           (layout (h @ [ReactionsObj (calculateReactions s)])
              (case calculateDiagrams s of
                 None \<Rightarrow> pass1 s (calculateReactions s) (beam_length s / real POINTS)
               | Some rs \<Rightarrow> rs)
              (map (\<lambda>i. IntegrationObj
                      (integrationData (beam_length s / real POINTS)
                         (pass1 s (calculateReactions s) (beam_length s / real POINTS)) i))
                 [0..<Suc POINTS]),
            (case calculateDiagrams s of None \<Rightarrow> None | Some rs \<Rightarrow> Some (Suc (length h))))"
proof -
  let ?R = "calculateReactions s"
  let ?dx = "beam_length s / real POINTS"
  let ?res = "pass1 s ?R ?dx"
  let ?h1 = "h @ [ReactionsObj ?R]"
  let ?f = "\<lambda>i. ResultObj (sample s ?R ?dx i)"
  let ?g = "\<lambda>i. IntegrationObj (integrationData ?dx ?res i)"
  let ?items = "map ?g [0..<Suc POINTS]"
  have h3: "fold (\<lambda>i. push (length ?h1) (?f i)) [0..<Suc POINTS] (?h1 @ [ArrayObj []]) =
            ?h1 @ ArrayObj (addrs (Suc (length ?h1)) (length ?res)) # map ResultObj ?res"
    using fold_push_shape [of ?h1 ?f "[0..<Suc POINTS]" "[]"]
    by (simp add: addrs_0 pass1_def del: upt_Suc)
  let ?h3 = "?h1 @ ArrayObj (addrs (Suc (length ?h1)) (length ?res)) # map ResultObj ?res"
  have h5: "fold (\<lambda>i. push (length ?h3) (?g i)) [0..<Suc POINTS] (?h3 @ [ArrayObj []]) =
            layout ?h1 ?res ?items"
    using fold_push_shape [of ?h3 ?g "[0..<Suc POINTS]" "[]"]
    by (simp add: addrs_0 layout_def length_addrs del: upt_Suc)
  have len: "length ?res = Suc POINTS" "length ?items = length ?res"
    by (simp_all add: pass1_def del: upt_Suc)
  have run: "calculateDiagrams_store h a =
        (case boundary_constants s ?dx ?res of
           None \<Rightarrow> (layout ?h1 ?res ?items, None)
         | Some (C1, C2) \<Rightarrow>
             (fold (rewrite_result (finalize_obj (flexural_EI s) C1 C2) (length ?h1)
                      (Suc (length ?h1 + length ?res)))
                [0..<Suc POINTS] (layout ?h1 ?res ?items),
              Some (length ?h1)))"
    using assms h3 h5
    by (simp add: calculateDiagrams_store_def calculateReactions_store_def alloc_def Let_def
          length_addrs del: upt_Suc split: option.splits)
  show ?thesis
  proof (cases "boundary_constants s ?dx ?res")
    case None
    then show ?thesis
      using run calculateDiagrams_None [OF None] by simp
  next
    case (Some c)
    obtain C1 C2 where c: "c = (C1, C2)" by (cases c)
    let ?fin = "\<lambda>i. finalize (flexural_EI s) C1 C2 (integrationData ?dx ?res i) (?res ! i)"
    have "fold (rewrite_result (finalize_obj (flexural_EI s) C1 C2) (length ?h1)
                  (Suc (length ?h1 + length ?res)))
            [0..<length ?res] (layout ?h1 ?res ?items) =
          layout ?h1 (map ?fin [0..<length ?res]) ?items"
      by (rule fold_rewrite_result_all) (simp_all add: len del: upt_Suc)
    moreover have "calculateDiagrams s = Some (map ?fin [0..<Suc POINTS])"
      using Some c by (simp add: calculateDiagrams_def Let_def del: upt_Suc)
    ultimately show ?thesis
      using run Some c by (simp add: len del: upt_Suc)
  qed
qed

lemma assign_slot_shape:
  "assign_slot (length pre) i ob (pre @ ArrayObj refs # rest) =
     pre @ ArrayObj (refs[i := Suc (length pre + length rest)]) # (rest @ [ob])"
  by (simp add: assign_slot_def alloc_def lookup_def list_update_append)

lemma fill_step:
  assumes "k < n"
  shows "(addrs z (Suc k) @ replicate (n - k) z)[Suc k := z + Suc k] =
         addrs z (Suc (Suc k)) @ replicate (n - Suc k) z"
proof -
  obtain m where m: "n - k = Suc m" "n - Suc k = m"
    using assms by (cases "n - k") auto
  show ?thesis
    by (simp add: m list_update_append length_addrs addrs_Suc)
qed

lemma fold_assign_shape:
  assumes "k \<le> n"
  shows "fold (\<lambda>i. assign_slot (length pre) i (f i)) [1..<Suc k]
           (pre @ ArrayObj (replicate (Suc n) (Suc (length pre))) # [f 0]) =
         pre @ ArrayObj (addrs (Suc (length pre)) (Suc k) @ replicate (n - k) (Suc (length pre)))
             # map f [0..<Suc k]"
  using assms
proof (induction k)
  case 0
  show ?case by (simp add: addrs_def)
next
  case (Suc k)
  let ?z = "Suc (length pre)"
  have k: "k < n" using Suc.prems by simp
  have "fold (\<lambda>i. assign_slot (length pre) i (f i)) [1..<Suc (Suc k)]
          (pre @ ArrayObj (replicate (Suc n) ?z) # [f 0]) =
        assign_slot (length pre) (Suc k) (f (Suc k))
          (fold (\<lambda>i. assign_slot (length pre) i (f i)) [1..<Suc k]
             (pre @ ArrayObj (replicate (Suc n) ?z) # [f 0]))"
    by simp
  also have "\<dots> = assign_slot (length pre) (Suc k) (f (Suc k))
          (pre @ ArrayObj (addrs ?z (Suc k) @ replicate (n - k) ?z) # map f [0..<Suc k])"
    using Suc.IH k by simp
  also have "\<dots> = pre @ ArrayObj ((addrs ?z (Suc k) @ replicate (n - k) ?z)
                                     [Suc k := ?z + Suc k])
                        # (map f [0..<Suc k] @ [f (Suc k)])"
    by (simp add: assign_slot_shape del: upt_Suc)
  also have "\<dots> = pre @ ArrayObj (addrs ?z (Suc (Suc k)) @ replicate (n - Suc k) ?z)
                        # map f [0..<Suc (Suc k)]"
    using fill_step [OF k, of ?z] by simp
  finally show ?case .
qed

lemma diagrams_part1_store_layout:
  assumes "read_state h a = Some s"
  shows "calculateDiagrams_part1_store h a =
           (layout (h @ [AnalysisObj (analyzeLoad (loads s) (analysis_pivot s)),
                         ReactionsObj (calculateReactions_part1 s)])
              (case calculateDiagrams_part1 s of
                 None \<Rightarrow> pass1_part1 s (calculateReactions_part1 s)
                           (beam_length s / real POINTS_part1)
               | Some rs \<Rightarrow> rs)
              (map (\<lambda>i. IntegrationObj_part1
                      (integration_part1 (flexural_EI s) (beam_length s / real POINTS_part1)
                         (pass1_part1 s (calculateReactions_part1 s)
                            (beam_length s / real POINTS_part1)) i))
                 [0..<Suc POINTS_part1]),
            (case calculateDiagrams_part1 s of
               None \<Rightarrow> None | Some rs \<Rightarrow> Some (Suc (Suc (length h)))))"
proof -
  let ?R = "calculateReactions_part1 s"
  let ?dx = "beam_length s / real POINTS_part1"
  let ?EI = "flexural_EI s"
  let ?res = "pass1_part1 s ?R ?dx"
  let ?h1 = "h @ [AnalysisObj (analyzeLoad (loads s) (analysis_pivot s)), ReactionsObj ?R]"
  let ?f = "\<lambda>i. ResultObj (sample_part1 s ?R ?dx i)"
  let ?g = "\<lambda>i. IntegrationObj_part1 (integration_part1 ?EI ?dx ?res i)"
  let ?items = "map ?g [0..<Suc POINTS_part1]"
  have h3: "fold (\<lambda>i. push (length ?h1) (?f i)) [0..<Suc POINTS_part1] (?h1 @ [ArrayObj []]) =
            ?h1 @ ArrayObj (addrs (Suc (length ?h1)) (length ?res)) # map ResultObj ?res"
    using fold_push_shape [of ?h1 ?f "[0..<Suc POINTS_part1]" "[]"]
    by (simp add: addrs_0 pass1_part1_def del: upt_Suc)
  let ?h3 = "?h1 @ ArrayObj (addrs (Suc (length ?h1)) (length ?res)) # map ResultObj ?res"
  have g0: "?g 0 = IntegrationObj_part1 (Num 0, Num 0)" by simp
  have h7: "fold (\<lambda>i. assign_slot (length ?h3) i (?g i)) [1..<Suc POINTS_part1]
              (?h3 @ ArrayObj (replicate (Suc POINTS_part1) (Suc (length ?h3)))
                  # [IntegrationObj_part1 (Num 0, Num 0)]) =
            layout ?h1 ?res ?items"
    using fold_assign_shape [of POINTS_part1 POINTS_part1 ?h3 ?g]
    by (simp only: g0) (simp add: layout_def length_addrs del: upt_Suc integration_part1.simps)
  have len: "length ?res = Suc POINTS_part1" "length ?items = length ?res"
    by (simp_all add: pass1_part1_def del: upt_Suc)
  have run: "calculateDiagrams_part1_store h a =
        (case boundary_constants_part1 s ?EI ?dx ?res of
           None \<Rightarrow> (layout ?h1 ?res ?items, None)
         | Some (C1, C2) \<Rightarrow>
             (fold (rewrite_result (finalize_part1_obj C1 C2) (length ?h1)
                      (Suc (length ?h1 + length ?res)))
                [0..<Suc POINTS_part1] (layout ?h1 ?res ?items),
              Some (length ?h1)))"
    using assms h3 h7
    by (simp add: calculateDiagrams_part1_store_def calculateReactions_part1_store_def
          alloc_def Let_def length_addrs list_update_append
          del: upt_Suc integration_part1.simps split: option.splits)
  show ?thesis
  proof (cases "boundary_constants_part1 s ?EI ?dx ?res")
    case None
    then show ?thesis
      using run calculateDiagrams_part1_None [OF None] by simp
  next
    case (Some c)
    obtain C1 C2 where c: "c = (C1, C2)" by (cases c)
    let ?fin = "\<lambda>i. finalize_part1 C1 C2 (integration_part1 ?EI ?dx ?res i) (?res ! i)"
    have "fold (rewrite_result (finalize_part1_obj C1 C2) (length ?h1)
                  (Suc (length ?h1 + length ?res)))
            [0..<length ?res] (layout ?h1 ?res ?items) =
          layout ?h1 (map ?fin [0..<length ?res]) ?items"
      by (rule fold_rewrite_result_all)
         (simp_all add: len del: upt_Suc integration_part1.simps)
    moreover have "calculateDiagrams_part1 s = Some (map ?fin [0..<Suc POINTS_part1])"
      using Some c by (simp add: calculateDiagrams_part1_def Let_def del: upt_Suc)
    ultimately show ?thesis
      using run Some c by (simp add: len del: upt_Suc integration_part1.simps)
  qed
qed

lemma addrs_fresh: "length h \<le> base \<Longrightarrow> \<forall>p \<in> set (addrs base n). fresh h p"
  by (auto simp: addrs_def fresh_def)

lemma distinct_addrs: "distinct (addrs base n)"
  by (simp add: addrs_def distinct_map inj_on_def)

lemma reactions_store_run:
  "read_state h a = Some s \<Longrightarrow>
   calculateReactions_store h a =
     (h @ [ReactionsObj (calculateReactions s)], Some (length h))"
  by (simp add: calculateReactions_store_def alloc_def)

lemma reactions_part1_store_run:
  "read_state h a = Some s \<Longrightarrow>
   calculateReactions_part1_store h a =
     (h @ [AnalysisObj (analyzeLoad (loads s) (analysis_pivot s)),
           ReactionsObj (calculateReactions_part1 s)],
      Some (Suc (length h)))"
  by (simp add: calculateReactions_part1_store_def alloc_def Let_def)

lemma reactions_store_frame:
  assumes "read_state h a = Some s"
  shows "unchanged h (fst (calculateReactions_store h a)) \<and>
         read_state (fst (calculateReactions_store h a)) a = Some s \<and>
         (\<exists>p. snd (calculateReactions_store h a) = Some p \<and> fresh h p \<and>
              lookup (fst (calculateReactions_store h a)) p
                = Some (ReactionsObj (calculateReactions s)))"
  using read_state_append [OF assms, of "[ReactionsObj (calculateReactions s)]"]
  by (simp add: reactions_store_run [OF assms] unchanged_def fresh_def lookup_def)

lemma reactions_part1_store_frame:
  assumes "read_state h a = Some s"
  shows "unchanged h (fst (calculateReactions_part1_store h a)) \<and>
         read_state (fst (calculateReactions_part1_store h a)) a = Some s \<and>
         (\<exists>p. snd (calculateReactions_part1_store h a) = Some p \<and> fresh h p \<and>
              lookup (fst (calculateReactions_part1_store h a)) p
                = Some (ReactionsObj (calculateReactions_part1 s)))"
  using read_state_append [OF assms,
      of "[AnalysisObj (analyzeLoad (loads s) (analysis_pivot s)),
           ReactionsObj (calculateReactions_part1 s)]"]
  by (simp add: reactions_part1_store_run [OF assms] unchanged_def fresh_def lookup_def
        nth_append)

lemma layout_results_fresh:
  "\<exists>ps. lookup (layout (h @ ext) rs items) (length (h @ ext)) = Some (ArrayObj ps) \<and>
        (\<forall>p \<in> set ps. fresh h p) \<and> distinct ps \<and>
        read_results (layout (h @ ext) rs items) (length (h @ ext)) = Some rs"
  using layout_results_array [of "h @ ext" rs items] read_results_layout [of "h @ ext" rs items]
    addrs_fresh [of h "Suc (length (h @ ext))" "length rs"] distinct_addrs
  by auto

lemma diagrams_store_frame:
  assumes "read_state h a = Some s"
  shows "unchanged h (fst (calculateDiagrams_store h a)) \<and>
         read_state (fst (calculateDiagrams_store h a)) a = Some s \<and>
         (calculateDiagrams s = None \<longrightarrow> snd (calculateDiagrams_store h a) = None) \<and>
         (\<forall>rs. calculateDiagrams s = Some rs \<longrightarrow>
            (\<exists>ra ps. snd (calculateDiagrams_store h a) = Some ra \<and> fresh h ra \<and>
               lookup (fst (calculateDiagrams_store h a)) ra = Some (ArrayObj ps) \<and>
               (\<forall>p \<in> set ps. fresh h p) \<and> distinct ps \<and>
               read_results (fst (calculateDiagrams_store h a)) ra = Some rs))"
proof -
  let ?ext = "[ReactionsObj (calculateReactions s)]"
  note run = diagrams_store_layout [OF assms]
  have "unchanged h (fst (calculateDiagrams_store h a))"
    by (simp add: run unchanged_def layout_frame)
  moreover have "read_state (fst (calculateDiagrams_store h a)) a = Some s"
    by (simp add: run layout_read_state [OF assms])
  moreover have "calculateDiagrams s = None \<longrightarrow> snd (calculateDiagrams_store h a) = None"
    by (simp add: run)
  moreover have "\<exists>ra ps. snd (calculateDiagrams_store h a) = Some ra \<and> fresh h ra \<and>
               lookup (fst (calculateDiagrams_store h a)) ra = Some (ArrayObj ps) \<and>
               (\<forall>p \<in> set ps. fresh h p) \<and> distinct ps \<and>
               read_results (fst (calculateDiagrams_store h a)) ra = Some rs"
    if "calculateDiagrams s = Some rs" for rs
    using that layout_results_fresh [of h ?ext rs]
    by (simp add: run fresh_def)
  ultimately show ?thesis by blast
qed

lemma diagrams_part1_store_frame:
  assumes "read_state h a = Some s"
  shows "unchanged h (fst (calculateDiagrams_part1_store h a)) \<and>
         read_state (fst (calculateDiagrams_part1_store h a)) a = Some s \<and>
         (calculateDiagrams_part1 s = None \<longrightarrow> snd (calculateDiagrams_part1_store h a) = None) \<and>
         (\<forall>rs. calculateDiagrams_part1 s = Some rs \<longrightarrow>
            (\<exists>ra ps. snd (calculateDiagrams_part1_store h a) = Some ra \<and> fresh h ra \<and>
               lookup (fst (calculateDiagrams_part1_store h a)) ra = Some (ArrayObj ps) \<and>
               (\<forall>p \<in> set ps. fresh h p) \<and> distinct ps \<and>
               read_results (fst (calculateDiagrams_part1_store h a)) ra = Some rs))"
proof -
  let ?ext = "[AnalysisObj (analyzeLoad (loads s) (analysis_pivot s)),
               ReactionsObj (calculateReactions_part1 s)]"
  note run = diagrams_part1_store_layout [OF assms]
  have "unchanged h (fst (calculateDiagrams_part1_store h a))"
    by (simp add: run unchanged_def layout_frame)
  moreover have "read_state (fst (calculateDiagrams_part1_store h a)) a = Some s"
    by (simp add: run layout_read_state [OF assms])
  moreover have "calculateDiagrams_part1 s = None \<longrightarrow>
                 snd (calculateDiagrams_part1_store h a) = None"
    by (simp add: run)
  moreover have "\<exists>ra ps. snd (calculateDiagrams_part1_store h a) = Some ra \<and> fresh h ra \<and>
               lookup (fst (calculateDiagrams_part1_store h a)) ra = Some (ArrayObj ps) \<and>
               (\<forall>p \<in> set ps. fresh h p) \<and> distinct ps \<and>
               read_results (fst (calculateDiagrams_part1_store h a)) ra = Some rs"
    if "calculateDiagrams_part1 s = Some rs" for rs
    using that layout_results_fresh [of h ?ext rs]
    by (simp add: run fresh_def)
  ultimately show ?thesis by blast
qed

lemma example_store_state: "read_state example_store 4 = Some simple_midspan_load"
  by (simp add: read_state_def read_loads_def read_load_def read_material_def
      read_profile_def lookup_def example_store_def simple_midspan_load_def
      midspan_point_load_def)

text \<open>
  Claim C9. Let the address \<open>a\<close> of the store \<open>h\<close> hold the BeamState \<open>s\<close>. After a
  call of \<open>calculateReactions\<close> or of \<open>calculateDiagrams\<close> (either version), also one
  that throws, every object the store held before the call is unchanged, so the state
  read at \<open>a\<close> is still \<open>s\<close>, with its loads array, each load, its material and its
  profile. The Reactions object returned is at an address that was not in use before
  the call and holds the reactions of \<open>s\<close>; the results array returned and every object
  it refers to are at addresses that were not in use before the call, the objects are
  distinct, and they hold the diagrams of \<open>s\<close>.
\<close>

theorem input_not_mutated:
  assumes "read_state h a = Some s"
  shows "unchanged h (fst (calculateReactions_store h a)) \<and>
         read_state (fst (calculateReactions_store h a)) a = Some s \<and>
         (\<exists>p. snd (calculateReactions_store h a) = Some p \<and> fresh h p \<and>
              lookup (fst (calculateReactions_store h a)) p
                = Some (ReactionsObj (calculateReactions s))) \<and>
         unchanged h (fst (calculateReactions_part1_store h a)) \<and>
         read_state (fst (calculateReactions_part1_store h a)) a = Some s \<and>
         (\<exists>p. snd (calculateReactions_part1_store h a) = Some p \<and> fresh h p \<and>
              lookup (fst (calculateReactions_part1_store h a)) p
                = Some (ReactionsObj (calculateReactions_part1 s))) \<and>
         unchanged h (fst (calculateDiagrams_store h a)) \<and>
         read_state (fst (calculateDiagrams_store h a)) a = Some s \<and>
         (calculateDiagrams s = None \<longrightarrow> snd (calculateDiagrams_store h a) = None) \<and>
         (\<forall>rs. calculateDiagrams s = Some rs \<longrightarrow>
            (\<exists>ra ps. snd (calculateDiagrams_store h a) = Some ra \<and> fresh h ra \<and>
               lookup (fst (calculateDiagrams_store h a)) ra = Some (ArrayObj ps) \<and>
               (\<forall>p \<in> set ps. fresh h p) \<and> distinct ps \<and>
               read_results (fst (calculateDiagrams_store h a)) ra = Some rs)) \<and>
         unchanged h (fst (calculateDiagrams_part1_store h a)) \<and>
         read_state (fst (calculateDiagrams_part1_store h a)) a = Some s \<and>
         (calculateDiagrams_part1 s = None \<longrightarrow> snd (calculateDiagrams_part1_store h a) = None) \<and>
         (\<forall>rs. calculateDiagrams_part1 s = Some rs \<longrightarrow>
            (\<exists>ra ps. snd (calculateDiagrams_part1_store h a) = Some ra \<and> fresh h ra \<and>
               lookup (fst (calculateDiagrams_part1_store h a)) ra = Some (ArrayObj ps) \<and>
               (\<forall>p \<in> set ps. fresh h p) \<and> distinct ps \<and>
               read_results (fst (calculateDiagrams_part1_store h a)) ra = Some rs))"
  using reactions_store_frame [OF assms] reactions_part1_store_frame [OF assms]
    diagrams_store_frame [OF assms] diagrams_part1_store_frame [OF assms]
  by (intro conjI) blast+

theorem input_not_mutated_witness:
  "read_state example_store 4 = Some simple_midspan_load \<and>
   unchanged example_store (fst (calculateReactions_store example_store 4)) \<and>
   unchanged example_store (fst (calculateReactions_part1_store example_store 4)) \<and>
   unchanged example_store (fst (calculateDiagrams_store example_store 4)) \<and>
   read_state (fst (calculateDiagrams_store example_store 4)) 4 = Some simple_midspan_load \<and>
   unchanged example_store (fst (calculateDiagrams_part1_store example_store 4)) \<and>
   read_state (fst (calculateDiagrams_part1_store example_store 4)) 4
     = Some simple_midspan_load"
  using input_not_mutated [OF example_store_state] example_store_state
  by simp

text \<open>
  Claim C10. A \<open>customI\<close> of exactly 0 is ignored by \<open>calculateDiagrams\<close>: the
  flexural stiffness is computed from \<open>profile.I\<close> when \<open>customI\<close> is 0 just as when
  it is undefined, so both inputs give the same diagrams, a zero custom second moment of
  area cannot be specified, and the profile Custom (the first entry of \<open>PROFILES\<close>,
  whose \<open>I\<close> is 0) with \<open>customI\<close> left at 0 yields \<open>EI = 0\<close>.
\<close>

theorem customI_zero_ignored:
  "flexural_EI (s\<lparr>customI := Some 0\<rparr>) = flexural_EI (s\<lparr>customI := None\<rparr>) \<and>
   flexural_EI (s\<lparr>customI := Some 0\<rparr>) =
     mat_E (material s) * 1000000 * (prof_I (profile s) / 100000000) \<and>
   calculateDiagrams (s\<lparr>customI := Some 0\<rparr>) = calculateDiagrams (s\<lparr>customI := None\<rparr>) \<and>
   calculateDiagrams_part1 (s\<lparr>customI := Some 0\<rparr>) =
     calculateDiagrams_part1 (s\<lparr>customI := None\<rparr>) \<and>
   flexural_EI (s\<lparr>profile := PROFILES ! 0, customI := Some 0\<rparr>) = 0"
proof -
  have e: "flexural_EI (s\<lparr>customI := Some 0\<rparr>) = flexural_EI (s\<lparr>customI := None\<rparr>)"
    by (simp add: flexural_EI_def)
  have "flexural_EI (s\<lparr>customI := Some 0\<rparr>) =
     mat_E (material s) * 1000000 * (prof_I (profile s) / 100000000)"
    by (simp add: flexural_EI_def)
  moreover have "flexural_EI (s\<lparr>profile := PROFILES ! 0, customI := Some 0\<rparr>) = 0"
    by (simp add: flexural_EI_def PROFILES_def)
  ultimately show ?thesis
    using e diagrams_customI [OF e] diagrams_part1_customI [OF e] by simp
qed

end
